theory Spec2Isabelle
  imports Main "HOL-Library.Sublist"
begin

section \<open>Values, exceptions and the objects the handlers work on\<close>

text \<open>
  The handlers of \<^verbatim>\<open>operator_cluster.py\<close> are embedded as state transformers over a
  world that holds the trace of the calls they make to their collaborators (platform API,
  Cluster Controller, resource factory, logger), the status written to the cluster
  resource and the process-local EphemeralPodState. A raised exception is the \<open>Inl\<close>
  result. What a collaborator returns or raises is read from an environment record.
\<close>

datatype pyval = PyNone | PyInt int | PyStr string | PyList "pyval list"

datatype exn =
    TemporaryError "nat option"
  | ApiException nat
  | ApiSpecError
  | AssertionError
  | AttributeError
  | OtherError string

text \<open>kopf's default delay of a \<^verbatim>\<open>TemporaryError\<close> raised without \<^verbatim>\<open>delay=\<close>.\<close>

definition DEFAULT_RETRY_DELAY :: nat where
  "DEFAULT_RETRY_DELAY = 60"

datatype dep_obj =
    InitConf
  | PrivateSecrets
  | RouterAccount
  | ClusterService
  | StatefulSet
  | DisruptionBudget
  | RouterService
  | RouterDeployment
  | BackupAccount

text \<open>
  Modelled from the spec: \<^verbatim>\<open>diagnose.ClusterDiagStatus\<close> is not part of the sources; the
  spec names PENDING, ONLINE, UNKNOWN "and other degraded/offline variants".
\<close>

datatype ClusterDiagStatus = PENDING | ONLINE | UNKNOWN | OTHER_STATUS nat

record cluster_status =
  status :: ClusterDiagStatus
  onlineInstances :: int
  lastProbeTime :: nat

text \<open>
  The \<^verbatim>\<open>InnoDBCluster\<close> wrapper built from the event body: the attributes the handlers
  read. \<^verbatim>\<open>router_instances\<close> is \<^verbatim>\<open>parsed_spec.router.instances\<close>.
\<close>

record InnoDBCluster =
  cluster_name :: string
  ready :: bool
  get_create_time :: "nat option"
  cluster_deleting :: bool
  router_instances :: int

text \<open>The \<^verbatim>\<open>MySQLPod\<close> wrapper built from the event body.\<close>

record MySQLPod =
  pod_name :: string
  index :: nat
  phase :: string
  pod_deleting :: bool
  configured :: bool
  membership_info :: bool
  containers_ready :: bool
  mysql_restarts :: "nat option"

datatype action =
    Log string
  | Diag string string string
  | ParseSpec
  | Validate
  | Lookup dep_obj
  | Prepare dep_obj
  | Adopt dep_obj
  | Create dep_obj
  | SetOperatorVersion string
  | SetStatus cluster_status
  | Acquire
  | Release
  | UpdateStatefulSetSpec pyval
  | UpdateMysqlImage
  | UpdateOperatorImage
  | UpdatePullPolicy
  | UpdateRouterImage
  | UpdateRouterPullPolicy
  | RouterUpdateSize pyval
  | UpdateSchedules pyval pyval
  | OnServerVersionChange pyval
  | OnServerImageChange pyval
  | OnGroupViewChange
  | GetCluster string
  | OnFirstClusterPodCreated
  | MonitorCluster
  | OnPodCreated MySQLPod
  | OnPodRestarted MySQLPod
  | OnPodDeleted MySQLPod
  | OnLastClusterPodRemoved
  | RemoveMemberFinalizer string
  | ProbeStatus string
  | SetEphemeral string "nat option"
  | Sleep nat
  | Failed action exn

text \<open>
  The collaborators. \<open>raises a\<close> is the exception call \<open>a\<close> raises, if any;
  \<open>getter d\<close> is what \<^verbatim>\<open>cluster.get_...()\<close> gives for dependent object \<open>d\<close>
  (an exception, or whether the result is truthy); \<open>get_cluster\<close> is
  \<^verbatim>\<open>pod.get_cluster()\<close>; \<open>probe_status_if_needed\<close> the Cluster Controller's probe;
  \<open>isotime\<close> the clock; \<open>operator_version_tag\<close> the constant
  \<^verbatim>\<open>config.DEFAULT_OPERATOR_VERSION_TAG\<close>.
\<close>

record env =
  raises :: "action \<Rightarrow> exn option"
  getter :: "dep_obj \<Rightarrow> exn + bool"
  get_cluster :: "exn + InnoDBCluster option"
  probe_status_if_needed :: "exn + ClusterDiagStatus"
  isotime :: nat
  operator_version_tag :: string

record world =
  trace :: "action list"
  operator_version :: "string option"
  cluster_status :: "cluster_status option"
  ephemeral :: "string \<Rightarrow> nat option"

section \<open>Statements, exceptions and calls\<close>

type_synonym 'a op = "world \<Rightarrow> (exn + 'a) \<times> world"

definition op_return :: "'a \<Rightarrow> 'a op" where
  "op_return x s = (Inr x, s)"

definition op_raise :: "exn \<Rightarrow> 'a op" where
  "op_raise e s = (Inl e, s)"

definition op_bind :: "'a op \<Rightarrow> ('a \<Rightarrow> 'b op) \<Rightarrow> 'b op" where
  "op_bind m f s = (case m s of (Inl e, s') \<Rightarrow> (Inl e, s') | (Inr x, s') \<Rightarrow> f x s')"

fun block :: "unit op list \<Rightarrow> unit op" where
  "block [] = op_return ()"
| "block (m # ms) = op_bind m (\<lambda>_. block ms)"

definition op_when :: "bool \<Rightarrow> unit op \<Rightarrow> unit op" where
  "op_when b m = (if b then m else op_return ())"

definition try_except :: "'a op \<Rightarrow> (exn \<Rightarrow> 'a op) \<Rightarrow> 'a op" where
  "try_except m h s = (case m s of (Inl e, s') \<Rightarrow> h e s' | (Inr x, s') \<Rightarrow> (Inr x, s'))"

definition emit :: "action \<Rightarrow> unit op" where
  "emit a s = (Inr (), s\<lparr>trace := trace s @ [a]\<rparr>)"

definition call :: "env \<Rightarrow> action \<Rightarrow> unit op" where
  "call e a =
     (case raises e a of
        None \<Rightarrow> emit a
      | Some x \<Rightarrow> op_bind (emit (Failed a x)) (\<lambda>_. op_raise x))"

definition lookup :: "env \<Rightarrow> dep_obj \<Rightarrow> bool op" where
  "lookup e d =
     (case getter e d of
        Inl x \<Rightarrow> op_bind (emit (Failed (Lookup d) x)) (\<lambda>_. op_raise x)
      | Inr obj \<Rightarrow> op_bind (emit (Lookup d)) (\<lambda>_. op_return obj))"

definition set_operator_version :: "string \<Rightarrow> unit op" where
  "set_operator_version v s =
     (Inr (), s\<lparr>trace := trace s @ [SetOperatorVersion v], operator_version := Some v\<rparr>)"

definition set_status :: "cluster_status \<Rightarrow> unit op" where
  "set_status st s =
     (Inr (), s\<lparr>trace := trace s @ [SetStatus st], cluster_status := Some st\<rparr>)"

text \<open>
  \<^verbatim>\<open>with ClusterMutex(cluster, pod): body\<close>. Modelled from the spec:
  \<^verbatim>\<open>ClusterMutex\<close> is not part of the sources; the spec has it acquired on entry and
  "released unconditionally on any exit path (success, exception, or early return)".
\<close>

definition with_ClusterMutex :: "unit op \<Rightarrow> unit op" where
  "with_ClusterMutex body s =
     (case body (s\<lparr>trace := trace s @ [Acquire]\<rparr>) of
        (r, s') \<Rightarrow> (r, s'\<lparr>trace := trace s' @ [Release]\<rparr>))"

section \<open>Cluster creation\<close>

definition ignore_404 :: "bool op \<Rightarrow> bool op" where
  "ignore_404 f =
     try_except f
       (\<lambda>e. case e of
               ApiException st \<Rightarrow> if st = 404 then op_return False else op_raise e
             | _ \<Rightarrow> op_raise e)"

definition prepare_and_create :: "env \<Rightarrow> dep_obj \<Rightarrow> unit op" where
  "prepare_and_create e d =
     block [call e (Prepare d), call e (Adopt d), emit (Log ''Creating...''), call e (Create d)]"

definition create_dependents :: "env \<Rightarrow> InnoDBCluster \<Rightarrow> unit op" where
  "create_dependents e cluster =
     block [
       emit (Log ''1. Initial Configuration ConfigMap and Container Probes''),
       op_bind (ignore_404 (lookup e InitConf)) (\<lambda>obj. op_when (\<not> obj)
         (block [emit (Log ''Preparing...''), prepare_and_create e InitConf])),
       emit (Log ''2. Cluster Accounts''),
       op_bind (ignore_404 (lookup e PrivateSecrets)) (\<lambda>obj. op_when (\<not> obj)
         (block [emit (Log ''Preparing...''), prepare_and_create e PrivateSecrets])),
       emit (Log ''3. Router Accounts''),
       op_bind (ignore_404 (lookup e RouterAccount)) (\<lambda>obj. op_when (\<not> obj)
         (block [emit (Log ''Preparing...''), prepare_and_create e RouterAccount])),
       emit (Log ''4. Cluster Service''),
       op_bind (ignore_404 (lookup e ClusterService)) (\<lambda>obj. op_when (\<not> obj)
         (block [emit (Log ''Creating...''), prepare_and_create e ClusterService])),
       emit (Log ''5. Cluster StatefulSet''),
       op_bind (ignore_404 (lookup e StatefulSet)) (\<lambda>obj. op_when (\<not> obj)
         (block [emit (Log ''Preparing...''), prepare_and_create e StatefulSet])),
       emit (Log ''6. Cluster PodDisruptionBudget''),
       op_bind (ignore_404 (lookup e DisruptionBudget)) (\<lambda>obj. op_when (\<not> obj)
         (block [emit (Log ''Preparing...''), prepare_and_create e DisruptionBudget])),
       emit (Log ''7. Router Service''),
       op_bind (ignore_404 (lookup e RouterService)) (\<lambda>obj. op_when (\<not> obj)
         (block [emit (Log ''Preparing...''), prepare_and_create e RouterService])),
       emit (Log ''8. Router Deployment''),
       op_bind (ignore_404 (lookup e RouterDeployment)) (\<lambda>obj. op_when (\<not> obj)
         (block [emit (Log ''Preparing...''),
                 op_when (router_instances cluster > 0) (prepare_and_create e RouterDeployment)])),
       emit (Log ''9. Backup Secrets''),
       op_bind (ignore_404 (lookup e BackupAccount)) (\<lambda>obj. op_when (\<not> obj)
         (block [emit (Log ''Preparing...''), prepare_and_create e BackupAccount]))
     ]"

definition on_innodbcluster_create :: "env \<Rightarrow> InnoDBCluster \<Rightarrow> unit op" where
  "on_innodbcluster_create e cluster =
     block [
       emit (Log ''Initializing InnoDB Cluster''),
       try_except (block [call e ParseSpec, call e Validate])
         (\<lambda>x. if x = ApiSpecError
               then block [emit (Diag ''error'' ''CreateCluster'' ''InvalidArgument''),
                           op_raise (TemporaryError (Some DEFAULT_RETRY_DELAY))]
               else op_raise x),
       emit (Log ''InnoDB Cluster Edition, images, server id, backup profiles and schedules''),
       op_when (\<not> ready cluster)
         (block [
            try_except (create_dependents e cluster)
              (\<lambda>exc. block [emit (Diag ''warn'' ''CreateCluster'' ''CreateResourceFailed''),
                            op_raise exc]),
            emit (Log ''10. Setting operator version for the IC''),
            set_operator_version (operator_version_tag e),
            emit (Diag ''info'' ''CreateCluster'' ''ResourcesCreated''),
            set_status \<lparr>status = PENDING, onlineInstances = 0, lastProbeTime = isotime e\<rparr>
          ])
     ]"

section \<open>Membership callback\<close>

definition on_group_view_change :: "env \<Rightarrow> InnoDBCluster \<Rightarrow> unit op" where
  "on_group_view_change e cluster = call e OnGroupViewChange"

section \<open>Spec field handlers\<close>

definition on_innodbcluster_field_instances ::
  "env \<Rightarrow> pyval \<Rightarrow> pyval \<Rightarrow> InnoDBCluster \<Rightarrow> unit op" where
  "on_innodbcluster_field_instances e old new cluster =
     (if \<not> ready cluster
      then emit (Log ''Ignoring spec.instances change for unready cluster'')
      else op_bind (lookup e StatefulSet) (\<lambda>sts. op_when (sts \<and> old \<noteq> new)
             (block [
                emit (Log ''Updating InnoDB Cluster StatefulSet.replicas''),
                call e Validate,
                call e (UpdateStatefulSetSpec new)])))"

definition on_innodbcluster_field_version ::
  "env \<Rightarrow> pyval \<Rightarrow> pyval \<Rightarrow> InnoDBCluster \<Rightarrow> unit op" where
  "on_innodbcluster_field_version e old new cluster =
     (if \<not> ready cluster
      then emit (Log ''Ignoring spec.version change for unready cluster'')
      else op_bind (lookup e StatefulSet) (\<lambda>sts. op_when (sts \<and> old \<noteq> new)
             (block [
                emit (Log ''Propagating spec.version''),
                call e ParseSpec,
                try_except (call e (OnServerVersionChange new)) (\<lambda>x. op_raise x),
                call e UpdateMysqlImage,
                op_bind (lookup e RouterDeployment) (\<lambda>router_deploy.
                  op_when router_deploy (call e UpdateRouterImage))])))"

definition on_innodbcluster_field_image_repository ::
  "env \<Rightarrow> pyval \<Rightarrow> pyval \<Rightarrow> InnoDBCluster \<Rightarrow> unit op" where
  "on_innodbcluster_field_image_repository e old new cluster =
     (if \<not> ready cluster
      then emit (Log ''Ignoring spec.imageRepository change for unready cluster'')
      else op_bind (lookup e StatefulSet) (\<lambda>sts. op_when (sts \<and> old \<noteq> new)
             (block [
                emit (Log ''Propagating spec.imageRepository''),
                call e ParseSpec,
                call e UpdateMysqlImage,
                call e UpdateOperatorImage,
                op_bind (lookup e RouterDeployment) (\<lambda>router_deploy.
                  op_when router_deploy (call e UpdateRouterImage))])))"

definition on_innodbcluster_field_image_pull_policy ::
  "env \<Rightarrow> pyval \<Rightarrow> pyval \<Rightarrow> InnoDBCluster \<Rightarrow> unit op" where
  "on_innodbcluster_field_image_pull_policy e old new cluster =
     (if \<not> ready cluster
      then emit (Log ''Ignoring spec.imagePullPolicy change for unready cluster'')
      else op_bind (lookup e StatefulSet) (\<lambda>sts. op_when (sts \<and> old \<noteq> new)
             (block [
                emit (Log ''Propagating spec.imagePullPolicy''),
                call e ParseSpec,
                call e UpdatePullPolicy,
                op_bind (lookup e RouterDeployment) (\<lambda>router_deploy.
                  op_when router_deploy (call e UpdateRouterPullPolicy))])))"

definition on_innodbcluster_field_image ::
  "env \<Rightarrow> pyval \<Rightarrow> pyval \<Rightarrow> InnoDBCluster \<Rightarrow> unit op" where
  "on_innodbcluster_field_image e old new cluster =
     (if \<not> ready cluster
      then emit (Log ''Ignoring spec.image change for unready cluster'')
      else op_bind (lookup e StatefulSet) (\<lambda>sts. op_when (sts \<and> old \<noteq> new)
             (block [
                emit (Log ''Updating MySQL image for InnoDB Cluster StatefulSet pod template''),
                call e Validate,
                try_except (call e (OnServerImageChange new)) (\<lambda>x. op_raise x),
                call e UpdateMysqlImage])))"

definition on_innodbcluster_field_router_instances ::
  "env \<Rightarrow> pyval \<Rightarrow> pyval \<Rightarrow> InnoDBCluster \<Rightarrow> unit op" where
  "on_innodbcluster_field_router_instances e old new cluster =
     (if get_create_time cluster = None
      then emit (Log ''Ignoring spec.router.instances change for unready cluster'')
      else with_ClusterMutex
             (block [
                emit (Log ''Updating Router Deployment.replicas''),
                call e Validate,
                call e (RouterUpdateSize new)]))"

definition on_innodbcluster_field_router_version ::
  "env \<Rightarrow> pyval \<Rightarrow> pyval \<Rightarrow> InnoDBCluster \<Rightarrow> unit op" where
  "on_innodbcluster_field_router_version e old new cluster =
     (if old = new then op_return ()
      else if get_create_time cluster = None
      then emit (Log ''Ignoring spec.router.version change for unready cluster'')
      else block [
             call e Validate,
             with_ClusterMutex
               (op_bind (lookup e RouterDeployment) (\<lambda>router_deploy.
                  op_when router_deploy (call e UpdateRouterImage)))])"

definition on_innodbcluster_field_backup_schedules ::
  "env \<Rightarrow> pyval \<Rightarrow> pyval \<Rightarrow> InnoDBCluster \<Rightarrow> unit op" where
  "on_innodbcluster_field_backup_schedules e old new cluster =
     (if old = new then op_return ()
      else block [
             emit (Log ''on_innodbcluster_field_backup_schedules''),
             op_when (get_create_time cluster = None) (op_raise (TemporaryError (Some 10))),
             call e Validate,
             with_ClusterMutex (call e (UpdateSchedules old new))])"

section \<open>Pod handlers\<close>

definition pod_get_cluster :: "env \<Rightarrow> MySQLPod \<Rightarrow> InnoDBCluster option op" where
  "pod_get_cluster e pod =
     (case get_cluster e of
        Inl x \<Rightarrow> op_bind (emit (Failed (GetCluster (pod_name pod)) x)) (\<lambda>_. op_raise x)
      | Inr c \<Rightarrow> op_bind (emit (GetCluster (pod_name pod))) (\<lambda>_. op_return c))"

definition ephemeral_get :: "MySQLPod \<Rightarrow> nat option op" where
  "ephemeral_get pod s = (Inr (ephemeral s (pod_name pod)), s)"

definition ephemeral_set :: "MySQLPod \<Rightarrow> nat option \<Rightarrow> unit op" where
  "ephemeral_set pod v s =
     (Inr (), s\<lparr>trace := trace s @ [SetEphemeral (pod_name pod) v],
                 ephemeral := (ephemeral s)(pod_name pod := v)\<rparr>)"

definition probe_status :: "env \<Rightarrow> MySQLPod \<Rightarrow> ClusterDiagStatus op" where
  "probe_status e pod =
     (case probe_status_if_needed e of
        Inl x \<Rightarrow> op_bind (emit (Failed (ProbeStatus (pod_name pod)) x)) (\<lambda>_. op_raise x)
      | Inr st \<Rightarrow> op_bind (emit (ProbeStatus (pod_name pod))) (\<lambda>_. op_return st))"

definition on_pod_create :: "env \<Rightarrow> MySQLPod \<Rightarrow> unit op" where
  "on_pod_create e pod =
     block [
       op_when (pod_deleting pod) (op_raise AssertionError),
       emit (Log ''POD CREATED''),
       op_when (\<not> configured pod) (op_raise (TemporaryError (Some 10))),
       op_bind (pod_get_cluster e pod) (\<lambda>cluster.
         case cluster of
           None \<Rightarrow> op_raise AttributeError
         | Some c \<Rightarrow>
             block [
               emit (Log ''CLUSTER DELETING''),
               with_ClusterMutex
                 (block [
                    op_when (index pod = 0 \<and> get_create_time c = None)
                      (block [call e OnFirstClusterPodCreated, call e MonitorCluster]),
                    call e (OnPodCreated pod),
                    ephemeral_set pod (mysql_restarts pod)])])
     ]"

text \<open>
  One pass through the body of the \<^verbatim>\<open>while True\<close> loop of \<^verbatim>\<open>on_pod_event\<close>.
  Both \<^verbatim>\<open>return\<close> and \<^verbatim>\<open>break\<close> leave the handler, so both are the \<open>Inr\<close> result.
\<close>

definition pod_event_attempt :: "env \<Rightarrow> MySQLPod \<Rightarrow> unit op" where
  "pod_event_attempt e pod =
     (if phase pod \<noteq> ''Running'' \<or> pod_deleting pod \<or> \<not> membership_info pod
      then emit (Log ''ignored pod event'')
      else op_bind (ephemeral_get pod) (\<lambda>stored.
        let event = (if stored \<noteq> mysql_restarts pod then ''mysql-restarted'' else []) in
        block [
          emit (Log ''POD EVENT''),
          op_bind (pod_get_cluster e pod) (\<lambda>cluster.
            case cluster of
              None \<Rightarrow> emit (Log ''Ignoring event for pod belonging to a deleted cluster'')
            | Some c \<Rightarrow>
                with_ClusterMutex
                  (block [
                     op_when (containers_ready pod \<and> event = ''mysql-restarted'')
                       (block [call e (OnPodRestarted pod),
                               ephemeral_set pod (mysql_restarts pod)]),
                     op_bind (probe_status e pod) (\<lambda>st.
                       op_when (st = UNKNOWN) (op_raise (TemporaryError (Some 15))))]))]))"

text \<open>The \<^verbatim>\<open>except kopf.TemporaryError\<close> branch: log, then sleep when the delay is truthy.\<close>

definition retry_sleep :: "nat option \<Rightarrow> world \<Rightarrow> world" where
  "retry_sleep delay s =
     s\<lparr>trace := trace s @ Log ''retrying'' #
          (case delay of None \<Rightarrow> [] | Some d \<Rightarrow> if d = 0 then [] else [Sleep d])\<rparr>"

text \<open>
  The handler itself. \<open>envs n\<close> is what the collaborators answer during attempt \<open>n\<close>.
  The loop has no exit but a pass that does not raise \<^verbatim>\<open>TemporaryError\<close>, so the result
  is an option: \<open>None\<close> is a loop that runs forever.
\<close>

partial_function (option) on_pod_event ::
  "(nat \<Rightarrow> env) \<Rightarrow> MySQLPod \<Rightarrow> nat \<Rightarrow> world \<Rightarrow> ((exn + unit) \<times> world) option" where
  "on_pod_event envs pod n s =
     (case pod_event_attempt (envs n) pod s of
        (Inl (TemporaryError delay), s') \<Rightarrow> on_pod_event envs pod (Suc n) (retry_sleep delay s')
      | (r, s') \<Rightarrow> Some (r, s'))"

definition on_pod_delete :: "env \<Rightarrow> MySQLPod \<Rightarrow> unit op" where
  "on_pod_delete e pod =
     block [
       op_when (\<not> pod_deleting pod) (op_raise AssertionError),
       op_bind (pod_get_cluster e pod) (\<lambda>cluster.
         case cluster of
           Some c \<Rightarrow>
             with_ClusterMutex
               (block [
                  call e (OnPodDeleted pod),
                  op_when (index pod = 0 \<and> cluster_deleting c) (call e OnLastClusterPodRemoved)])
         | None \<Rightarrow>
             block [
               call e (RemoveMemberFinalizer (pod_name pod)),
               emit (Log ''Owner cluster does not exist anymore'')])
     ]"

section \<open>Observations on traces\<close>

text \<open>The calls a handler run added to the trace.\<close>

definition new_actions :: "world \<Rightarrow> world \<Rightarrow> action list" where
  "new_actions s s' = drop (length (trace s)) (trace s')"

text \<open>A create call submitted to the platform, whether or not it raised.\<close>

fun submitted :: "action \<Rightarrow> dep_obj option" where
  "submitted (Create d) = Some d"
| "submitted (Failed (Create d) x) = Some d"
| "submitted _ = None"

fun looked_up :: "action \<Rightarrow> dep_obj option" where
  "looked_up (Lookup d) = Some d"
| "looked_up (Failed (Lookup d) x) = Some d"
| "looked_up _ = None"

fun create_calls :: "action list \<Rightarrow> dep_obj list" where
  "create_calls [] = []"
| "create_calls (a # as) =
     (case submitted a of Some d \<Rightarrow> d # create_calls as | None \<Rightarrow> create_calls as)"

text \<open>Every create call for an object comes after an existence lookup of that object
  (\<open>L\<close> holds the objects looked up so far).\<close>

fun check_then_create :: "dep_obj list \<Rightarrow> action list \<Rightarrow> bool" where
  "check_then_create L [] = True"
| "check_then_create L (a # as) =
     (case looked_up a of
        Some d \<Rightarrow> check_then_create (d # L) as
      | None \<Rightarrow> (case submitted a of
                   Some d \<Rightarrow> d \<in> set L \<and> check_then_create L as
                 | None \<Rightarrow> check_then_create L as))"

definition lookup_says_missing :: "env \<Rightarrow> dep_obj \<Rightarrow> bool" where
  "lookup_says_missing e d = (getter e d = Inr False \<or> getter e d = Inl (ApiException 404))"

definition must_create :: "env \<Rightarrow> InnoDBCluster \<Rightarrow> dep_obj \<Rightarrow> bool" where
  "must_create e c d =
     (lookup_says_missing e d \<and> (d = RouterDeployment \<longrightarrow> router_instances c > 0))"

text \<open>The order of creation in the words of the specification (section 6).\<close>

definition spec_creation_order :: "dep_obj list" where
  "spec_creation_order =
     [InitConf, PrivateSecrets, RouterAccount, ClusterService, StatefulSet,
      DisruptionBudget, RouterService, RouterDeployment, BackupAccount]"

text \<open>The nine blocks of \<open>create_dependents\<close> have one shape; the proofs go through it.\<close>

definition create_step :: "env \<Rightarrow> string \<Rightarrow> string \<Rightarrow> bool \<Rightarrow> dep_obj \<Rightarrow> unit op" where
  "create_step e title msg cond d =
     block [emit (Log title),
            op_bind (ignore_404 (lookup e d)) (\<lambda>obj. op_when (\<not> obj)
              (block [emit (Log msg), op_when cond (prepare_and_create e d)]))]"

definition create_plan :: "InnoDBCluster \<Rightarrow> (string \<times> string \<times> bool \<times> dep_obj) list" where
  "create_plan c =
    [(''1. Initial Configuration ConfigMap and Container Probes'', ''Preparing...'', True, InitConf),
     (''2. Cluster Accounts'', ''Preparing...'', True, PrivateSecrets),
     (''3. Router Accounts'', ''Preparing...'', True, RouterAccount),
     (''4. Cluster Service'', ''Creating...'', True, ClusterService),
     (''5. Cluster StatefulSet'', ''Preparing...'', True, StatefulSet),
     (''6. Cluster PodDisruptionBudget'', ''Preparing...'', True, DisruptionBudget),
     (''7. Router Service'', ''Preparing...'', True, RouterService),
     (''8. Router Deployment'', ''Preparing...'', router_instances c > 0, RouterDeployment),
     (''9. Backup Secrets'', ''Preparing...'', True, BackupAccount)]"

definition run_plan :: "env \<Rightarrow> (string \<times> string \<times> bool \<times> dep_obj) list \<Rightarrow> unit op" where
  "run_plan e xs = block (map (\<lambda>(t, m, c, d). create_step e t m c d) xs)"

fun plan_obj :: "string \<times> string \<times> bool \<times> dep_obj \<Rightarrow> dep_obj" where
  "plan_obj (t, m, cond, d) = d"

fun plan_wanted :: "env \<Rightarrow> string \<times> string \<times> bool \<times> dep_obj \<Rightarrow> bool" where
  "plan_wanted e (t, m, cond, d) = (lookup_says_missing e d \<and> cond)"

definition create_prologue :: "action list" where
  "create_prologue =
     [Log ''Initializing InnoDB Cluster'', ParseSpec, Validate,
      Log ''InnoDB Cluster Edition, images, server id, backup profiles and schedules'']"

definition create_epilogue :: "env \<Rightarrow> action list" where
  "create_epilogue e =
     [Log ''10. Setting operator version for the IC'',
      SetOperatorVersion (operator_version_tag e),
      Diag ''info'' ''CreateCluster'' ''ResourcesCreated'',
      SetStatus \<lparr>status = PENDING, onlineInstances = 0, lastProbeTime = isotime e\<rparr>]"

section \<open>Concrete inputs\<close>

definition world0 :: world where
  "world0 = \<lparr>trace = [], operator_version = None, cluster_status = None,
              ephemeral = (\<lambda>_. None)\<rparr>"

definition cluster_new :: InnoDBCluster where
  "cluster_new = \<lparr>cluster_name = ''mycluster'', ready = False, get_create_time = None,
                   cluster_deleting = False, router_instances = 1\<rparr>"

definition cluster_ready :: InnoDBCluster where
  "cluster_ready = \<lparr>cluster_name = ''mycluster'', ready = True, get_create_time = Some 1,
                     cluster_deleting = False, router_instances = 1\<rparr>"

definition env_fresh :: env where
  "env_fresh = \<lparr>raises = (\<lambda>_. None), getter = (\<lambda>_. Inr False),
                 get_cluster = Inr (Some cluster_new), probe_status_if_needed = Inr ONLINE,
                 isotime = 0, operator_version_tag = ''8.0.25''\<rparr>"

definition env_invalid :: env where
  "env_invalid = env_fresh\<lparr>raises := (\<lambda>a. if a = Validate then Some ApiSpecError else None)\<rparr>"

definition env_found :: env where
  "env_found = env_fresh\<lparr>getter := (\<lambda>_. Inr True)\<rparr>"


definition env_orphan :: env where
  "env_orphan = env_fresh\<lparr>get_cluster := Inr None\<rparr>"

definition pod0 :: MySQLPod where
  "pod0 = \<lparr>pod_name = ''mycluster-0'', index = 0, phase = ''Running'', pod_deleting = False,
            configured = True, membership_info = True, containers_ready = True,
            mysql_restarts = Some 1\<rparr>"

section \<open>Observations on the mutex, on logging and on the pre-change hooks\<close>

text \<open>
  A write this file's handlers make to the cluster resource's status or to a dependent
  platform object, whether or not the call raised. What the Cluster Controller's hooks
  write is outside these sources and is not counted.
\<close>

fun is_mutation :: "action \<Rightarrow> bool" where
  "is_mutation (Create d) = True"
| "is_mutation (SetOperatorVersion v) = True"
| "is_mutation (SetStatus st) = True"
| "is_mutation (UpdateStatefulSetSpec v) = True"
| "is_mutation UpdateMysqlImage = True"
| "is_mutation UpdateOperatorImage = True"
| "is_mutation UpdatePullPolicy = True"
| "is_mutation UpdateRouterImage = True"
| "is_mutation UpdateRouterPullPolicy = True"
| "is_mutation (RouterUpdateSize v) = True"
| "is_mutation (UpdateSchedules v w) = True"
| "is_mutation (Failed a x) = is_mutation a"
| "is_mutation _ = False"

text \<open>The Cluster Controller's pod hooks and the first-pod and last-pod actions.\<close>

fun is_pod_hook :: "action \<Rightarrow> bool" where
  "is_pod_hook (OnPodCreated p) = True"
| "is_pod_hook (OnPodRestarted p) = True"
| "is_pod_hook (OnPodDeleted p) = True"
| "is_pod_hook OnFirstClusterPodCreated = True"
| "is_pod_hook OnLastClusterPodRemoved = True"
| "is_pod_hook (Failed a x) = is_pod_hook a"
| "is_pod_hook _ = False"

text \<open>Every action that satisfies \<open>P\<close> happens between \<open>Acquire\<close> and \<open>Release\<close>;
  \<open>held\<close> says whether the mutex is held at the start.\<close>

fun under_mutex :: "(action \<Rightarrow> bool) \<Rightarrow> bool \<Rightarrow> action list \<Rightarrow> bool" where
  "under_mutex P held [] = True"
| "under_mutex P held (Acquire # as) = under_mutex P True as"
| "under_mutex P held (Release # as) = under_mutex P False as"
| "under_mutex P held (a # as) = ((P a \<longrightarrow> held) \<and> under_mutex P held as)"

fun is_log :: "action \<Rightarrow> bool" where
  "is_log (Log m) = True"
| "is_log _ = False"

text \<open>The handler returns, and all it does is log.\<close>

definition quiet :: "unit op \<Rightarrow> world \<Rightarrow> bool" where
  "quiet m s =
     (case m s of
        (r, s') \<Rightarrow> r = Inr () \<and> list_all is_log (new_actions s s')
                   \<and> operator_version s' = operator_version s
                   \<and> cluster_status s' = cluster_status s
                   \<and> ephemeral s' = ephemeral s)"

fun is_prechange_hook :: "action \<Rightarrow> bool" where
  "is_prechange_hook (OnServerVersionChange v) = True"
| "is_prechange_hook (OnServerImageChange v) = True"
| "is_prechange_hook _ = False"

text \<open>No mutation before a pre-change hook has returned; \<open>seen\<close> says whether one has.\<close>

fun hook_before_mutation :: "bool \<Rightarrow> action list \<Rightarrow> bool" where
  "hook_before_mutation seen [] = True"
| "hook_before_mutation seen (a # as) =
     ((is_mutation a \<longrightarrow> seen) \<and> hook_before_mutation (seen \<or> is_prechange_hook a) as)"

fun is_finalizer_removal :: "action \<Rightarrow> bool" where
  "is_finalizer_removal (RemoveMemberFinalizer p) = True"
| "is_finalizer_removal (Failed a x) = is_finalizer_removal a"
| "is_finalizer_removal _ = False"

section \<open>Observations on pod events\<close>

text \<open>A call of the pod-restarted hook, whether or not it raised.\<close>

fun is_restart_call :: "action \<Rightarrow> bool" where
  "is_restart_call (OnPodRestarted p) = True"
| "is_restart_call (Failed (OnPodRestarted p) x) = True"
| "is_restart_call _ = False"

definition notifications :: "action list \<Rightarrow> nat" where
  "notifications tr = length (filter is_restart_call tr)"

fun is_temporary :: "exn + unit \<Rightarrow> bool" where
  "is_temporary (Inl (TemporaryError d)) = True"
| "is_temporary _ = False"

text \<open>The loop of \<open>on_pod_event\<close> cut after \<open>k\<close> retries: the outcome of attempt
  \<open>n + k\<close> at the latest.\<close>

fun pod_event_attempts ::
  "(nat \<Rightarrow> env) \<Rightarrow> MySQLPod \<Rightarrow> nat \<Rightarrow> nat \<Rightarrow> world \<Rightarrow> (exn + unit) \<times> world" where
  "pod_event_attempts envs pod n 0 s = pod_event_attempt (envs n) pod s"
| "pod_event_attempts envs pod n (Suc k) s =
     (case pod_event_attempt (envs n) pod s of
        (Inl (TemporaryError delay), s') \<Rightarrow>
          pod_event_attempts envs pod (Suc n) k (retry_sleep delay s')
      | (r, s') \<Rightarrow> (r, s'))"

text \<open>The restart count of pod \<open>p\<close> at the last pod-created or pod-restarted hook that
  returned for it, \<open>None\<close> when there was none.\<close>

fun delivered :: "string \<Rightarrow> nat option \<Rightarrow> action \<Rightarrow> nat option" where
  "delivered p acc (OnPodCreated pod) = (if pod_name pod = p then mysql_restarts pod else acc)"
| "delivered p acc (OnPodRestarted pod) = (if pod_name pod = p then mysql_restarts pod else acc)"
| "delivered p acc _ = acc"

definition last_delivered :: "string \<Rightarrow> action list \<Rightarrow> nat option" where
  "last_delivered p tr = foldl (delivered p) None tr"

definition stored_matches :: "world \<Rightarrow> bool" where
  "stored_matches s = (\<forall>p. ephemeral s p = last_delivered p (trace s))"

definition preserves :: "(world \<Rightarrow> bool) \<Rightarrow> 'a op \<Rightarrow> bool" where
  "preserves I m = (\<forall>s. I s \<longrightarrow> I (snd (m s)))"

section \<open>Further concrete inputs\<close>

definition env_hook_fails :: env where
  "env_hook_fails = env_found\<lparr>raises :=
     (\<lambda>a. if a = OnServerVersionChange (PyStr ''8.0.26'') \<or> a = OnServerImageChange (PyStr ''8.0.26'')
          then Some (OtherError ''upgrade refused'') else None)\<rparr>"

definition pod_unconfigured :: MySQLPod where
  "pod_unconfigured = pod0\<lparr>configured := False\<rparr>"

definition pod_going :: MySQLPod where
  "pod_going = pod0\<lparr>pod_deleting := True\<rparr>"

definition env_unknown :: env where
  "env_unknown = env_fresh\<lparr>probe_status_if_needed := Inr UNKNOWN\<rparr>"

definition envs_unknown :: "nat \<Rightarrow> env" where
  "envs_unknown n = env_unknown"

definition envs_fresh :: "nat \<Rightarrow> env" where
  "envs_fresh n = env_fresh"

definition envs_orphan :: "nat \<Rightarrow> env" where
  "envs_orphan n = env_orphan"

definition world_seen0 :: world where
  "world_seen0 = world0\<lparr>ephemeral := (\<lambda>p. if p = ''mycluster-0'' then Some 0 else None)\<rparr>"

definition envs_recover :: "nat \<Rightarrow> env" where
  "envs_recover n = (if n = 0 then env_unknown else env_fresh)"

definition pod_not_ready :: MySQLPod where
  "pod_not_ready = pod0\<lparr>containers_ready := False\<rparr>"

definition pod_created :: MySQLPod where
  "pod_created = pod0\<lparr>mysql_restarts := Some 0\<rparr>"

definition world_created :: world where
  "world_created = snd (on_pod_create env_fresh pod_created world0)"

definition world_stale :: world where
  "world_stale = snd (pod_event_attempt env_fresh pod_not_ready world_created)"

definition env_hook_busy :: env where
  "env_hook_busy = env_fresh\<lparr>raises :=
     (\<lambda>a. if a = OnPodRestarted pod0 then Some (TemporaryError (Some 10)) else None)\<rparr>"

definition envs_hook_busy :: "nat \<Rightarrow> env" where
  "envs_hook_busy n = (if n = 0 then env_hook_busy else env_fresh)"

section \<open>Statements and blocks\<close>

lemmas op_defs =
  op_bind_def op_return_def op_raise_def try_except_def emit_def call_def op_when_def

lemma op_bind_assoc: "op_bind (op_bind m f) g = op_bind m (\<lambda>x. op_bind (f x) g)"
  by (auto simp: fun_eq_iff op_bind_def split: prod.splits sum.splits)

lemma op_bind_return: "op_bind m op_return = m" "op_bind m (\<lambda>_. op_return ()) = m"
  by (auto simp: fun_eq_iff op_bind_def op_return_def split: prod.splits sum.splits)

lemma op_when_True: "op_when True m = m"
  by (simp add: op_when_def)

lemma create_calls_append: "create_calls (a @ b) = create_calls a @ create_calls b"
  by (induction a) (auto split: option.splits)

lemma check_then_create_append:
  "check_then_create L a \<Longrightarrow> (\<And>L'. check_then_create L' b) \<Longrightarrow> check_then_create L (a @ b)"
  by (induction a arbitrary: L) (auto split: option.splits)

section \<open>Cluster creation: a rejected spec\<close>

text \<open>
  C8. When \<^verbatim>\<open>parse_spec\<close> or \<^verbatim>\<open>validate\<close> raises \<^verbatim>\<open>ApiSpecError\<close>, the create handler
  records the diagnostic (action CreateCluster, reason InvalidArgument) as its last call,
  raises a \<^verbatim>\<open>TemporaryError\<close>, submits no create call, and writes neither the status nor the
  operator version.
\<close>

theorem create_rejects_invalid_spec:
  assumes "raises e ParseSpec = Some ApiSpecError
           \<or> (raises e ParseSpec = None \<and> raises e Validate = Some ApiSpecError)"
  shows "\<exists>s'. on_innodbcluster_create e c s = (Inl (TemporaryError (Some DEFAULT_RETRY_DELAY)), s')
     \<and> last (trace s') = Diag ''error'' ''CreateCluster'' ''InvalidArgument''
     \<and> create_calls (new_actions s s') = []
     \<and> (\<forall>st. SetStatus st \<notin> set (new_actions s s'))
     \<and> (\<forall>v. SetOperatorVersion v \<notin> set (new_actions s s'))
     \<and> cluster_status s' = cluster_status s
     \<and> operator_version s' = operator_version s"
  using assms
  by (auto simp: on_innodbcluster_create_def op_defs new_actions_def)

theorem create_rejects_invalid_spec_witness:
  "raises env_invalid ParseSpec = None \<and> raises env_invalid Validate = Some ApiSpecError
   \<and> fst (on_innodbcluster_create env_invalid cluster_new world0) = Inl (TemporaryError (Some 60))
   \<and> create_calls (trace (snd (on_innodbcluster_create env_invalid cluster_new world0))) = []
   \<and> cluster_status (snd (on_innodbcluster_create env_invalid cluster_new world0)) = None"
proof -
  have h: "raises env_invalid ParseSpec = Some ApiSpecError
           \<or> (raises env_invalid ParseSpec = None \<and> raises env_invalid Validate = Some ApiSpecError)"
    by (simp add: env_invalid_def)
  from create_rejects_invalid_spec [OF h, of cluster_new world0] show ?thesis
    by (auto simp: env_invalid_def world0_def new_actions_def DEFAULT_RETRY_DELAY_def)
qed

section \<open>Cluster creation: order of the dependent objects\<close>

lemma create_dependents_plan: "create_dependents e c = run_plan e (create_plan c)"
  unfolding run_plan_def create_plan_def create_step_def create_dependents_def list.map prod.case
  by (simp add: op_bind_assoc op_bind_return op_when_True)

lemma create_step_effect:
  assumes "create_step e t m cond d s = (r, s')"
  shows "\<exists>new. trace s' = trace s @ new
     \<and> operator_version s' = operator_version s \<and> cluster_status s' = cluster_status s
     \<and> ephemeral s' = ephemeral s
     \<and> (create_calls new = [] \<or> create_calls new = [d] \<and> lookup_says_missing e d \<and> cond)
     \<and> (r = Inr () \<longrightarrow> create_calls new = (if lookup_says_missing e d \<and> cond then [d] else [])
                       \<and> (\<forall>d' x. Failed (Create d') x \<notin> set new)
                       \<and> (\<forall>x. getter e d = Inl x \<longrightarrow> x = ApiException 404))
     \<and> (\<forall>L. check_then_create L new)"
  using assms
  unfolding create_step_def prepare_and_create_def ignore_404_def lookup_def lookup_says_missing_def
  by (auto simp: op_defs split: sum.splits exn.splits option.splits if_splits)

lemma run_plan_Nil: "run_plan e [] s = (Inr (), s)"
  by (simp add: run_plan_def op_return_def)

lemma run_plan_Cons:
  "run_plan e ((t, m, cond, d) # xs) s =
     (case create_step e t m cond d s of
        (Inl x, s1) \<Rightarrow> (Inl x, s1)
      | (Inr u, s1) \<Rightarrow> run_plan e xs s1)"
  unfolding run_plan_def by (simp add: op_bind_def)

lemma run_plan_effect:
  assumes "run_plan e xs s = (r, s')"
  shows "\<exists>new. trace s' = trace s @ new
     \<and> operator_version s' = operator_version s \<and> cluster_status s' = cluster_status s
     \<and> ephemeral s' = ephemeral s
     \<and> prefix (create_calls new) (map plan_obj (filter (plan_wanted e) xs))
     \<and> (r = Inr () \<longrightarrow> create_calls new = map plan_obj (filter (plan_wanted e) xs)
            \<and> (\<forall>d' x. Failed (Create d') x \<notin> set new)
            \<and> (\<forall>p\<in>set xs. \<forall>x. getter e (plan_obj p) = Inl x \<longrightarrow> x = ApiException 404))
     \<and> (\<forall>L. check_then_create L new)"
  using assms
proof (induction xs arbitrary: s)
  case Nil
  then show ?case by (simp add: run_plan_Nil)
next
  case (Cons p xs)
  obtain t m cond d where p: "p = (t, m, cond, d)" by (cases p) auto
  obtain r1 s1 where st: "create_step e t m cond d s = (r1, s1)"
    by (cases "create_step e t m cond d s") auto
  from create_step_effect [OF st] obtain n1 where n1:
    "trace s1 = trace s @ n1" "operator_version s1 = operator_version s"
    "cluster_status s1 = cluster_status s" "ephemeral s1 = ephemeral s"
    "create_calls n1 = [] \<or> create_calls n1 = [d] \<and> lookup_says_missing e d \<and> cond"
    "r1 = Inr () \<longrightarrow> create_calls n1 = (if lookup_says_missing e d \<and> cond then [d] else [])
                       \<and> (\<forall>d' x. Failed (Create d') x \<notin> set n1)
                       \<and> (\<forall>x. getter e d = Inl x \<longrightarrow> x = ApiException 404)"
    "\<forall>L. check_then_create L n1"
    by blast
  show ?case
  proof (cases r1)
    case (Inl x)
    with Cons.prems p st have "r = Inl x" "s' = s1" by (simp_all add: run_plan_Cons)
    with n1 p show ?thesis by auto
  next
    case (Inr u)
    with Cons.prems p st have rest: "run_plan e xs s1 = (r, s')" by (simp add: run_plan_Cons)
    from Cons.IH [OF rest] obtain n2 where n2:
      "trace s' = trace s1 @ n2" "operator_version s' = operator_version s1"
      "cluster_status s' = cluster_status s1" "ephemeral s' = ephemeral s1"
      "prefix (create_calls n2) (map plan_obj (filter (plan_wanted e) xs))"
      "r = Inr () \<longrightarrow> create_calls n2 = map plan_obj (filter (plan_wanted e) xs)
            \<and> (\<forall>d' x. Failed (Create d') x \<notin> set n2)
            \<and> (\<forall>p\<in>set xs. \<forall>x. getter e (plan_obj p) = Inl x \<longrightarrow> x = ApiException 404)"
      "\<forall>L. check_then_create L n2"
      by blast
    have tr: "trace s' = trace s @ (n1 @ n2)" using n1(1) n2(1) by simp
    have cc: "create_calls n1 = (if lookup_says_missing e d \<and> cond then [d] else [])"
      using n1(6) Inr by simp
    have pre: "prefix (create_calls (n1 @ n2)) (map plan_obj (filter (plan_wanted e) (p # xs)))"
      using cc n2(5) p by (simp add: create_calls_append)
    have ok: "r = Inr () \<longrightarrow> create_calls (n1 @ n2) = map plan_obj (filter (plan_wanted e) (p # xs))
            \<and> (\<forall>d' x. Failed (Create d') x \<notin> set (n1 @ n2))
            \<and> (\<forall>p\<in>set (p # xs). \<forall>x. getter e (plan_obj p) = Inl x \<longrightarrow> x = ApiException 404)"
      using cc n2(6) n1(6) Inr p by (auto simp: create_calls_append)
    have chk: "\<forall>L. check_then_create L (n1 @ n2)"
      using n1(7) n2(7) by (auto intro: check_then_create_append)
    show ?thesis
      using tr pre ok chk n1(2-4) n2(2-4) by (intro exI [of _ "n1 @ n2"]) simp
  qed
qed

lemma plan_filter:
  "map plan_obj (filter (plan_wanted e) (create_plan c)) = filter (must_create e c) spec_creation_order"
proof -
  have "map plan_obj (filter (must_create e c \<circ> plan_obj) (create_plan c))
        = filter (must_create e c) (map plan_obj (create_plan c))"
    by (simp only: filter_map)
  moreover have "filter (must_create e c \<circ> plan_obj) (create_plan c) = filter (plan_wanted e) (create_plan c)"
    by (rule filter_cong) (auto simp: create_plan_def must_create_def)
  moreover have "map plan_obj (create_plan c) = spec_creation_order"
    by (simp add: create_plan_def spec_creation_order_def)
  ultimately show ?thesis by simp
qed

lemma plan_covers: "d \<in> plan_obj ` set (create_plan c)"
  by (cases d) (simp_all add: create_plan_def)

lemma create_dependents_effect:
  assumes "create_dependents e c s = (r, s')"
  shows "\<exists>new. trace s' = trace s @ new
     \<and> operator_version s' = operator_version s \<and> cluster_status s' = cluster_status s
     \<and> ephemeral s' = ephemeral s
     \<and> prefix (create_calls new) (filter (must_create e c) spec_creation_order)
     \<and> (r = Inr () \<longrightarrow> create_calls new = filter (must_create e c) spec_creation_order
            \<and> (\<forall>d' x. Failed (Create d') x \<notin> set new)
            \<and> (\<forall>d x. getter e d = Inl x \<longrightarrow> x = ApiException 404))
     \<and> (\<forall>L. check_then_create L new)"
proof -
  from run_plan_effect [of e "create_plan c" s r s'] assms obtain new where new:
    "trace s' = trace s @ new"
    "operator_version s' = operator_version s" "cluster_status s' = cluster_status s"
    "ephemeral s' = ephemeral s"
    "prefix (create_calls new) (filter (must_create e c) spec_creation_order)"
    "r = Inr () \<longrightarrow> create_calls new = filter (must_create e c) spec_creation_order
            \<and> (\<forall>d' x. Failed (Create d') x \<notin> set new)
            \<and> (\<forall>p\<in>set (create_plan c). \<forall>x. getter e (plan_obj p) = Inl x \<longrightarrow> x = ApiException 404)"
    "\<forall>L. check_then_create L new"
    by (auto simp: create_dependents_plan plan_filter)
  have "r = Inr () \<longrightarrow> (\<forall>d x. getter e d = Inl x \<longrightarrow> x = ApiException 404)"
    using new(6) plan_covers [of _ c] by (metis imageE)
  with new show ?thesis by blast
qed

lemma on_innodbcluster_create_valid:
  assumes "raises e ParseSpec = None" "raises e Validate = None"
  shows "on_innodbcluster_create e c s =
     (if ready c then (Inr (), s\<lparr>trace := trace s @ create_prologue\<rparr>)
      else (case create_dependents e c (s\<lparr>trace := trace s @ create_prologue\<rparr>) of
              (Inl x, s1) \<Rightarrow>
                (Inl x, s1\<lparr>trace := trace s1 @ [Diag ''warn'' ''CreateCluster'' ''CreateResourceFailed'']\<rparr>)
            | (Inr u, s1) \<Rightarrow>
                (Inr (), s1\<lparr>trace := trace s1 @ create_epilogue e,
                             operator_version := Some (operator_version_tag e),
                             cluster_status := Some \<lparr>status = PENDING, onlineInstances = 0,
                                                     lastProbeTime = isotime e\<rparr>\<rparr>)))"
  using assms
  by (simp add: on_innodbcluster_create_def op_defs set_operator_version_def set_status_def
      create_prologue_def create_epilogue_def split: prod.splits sum.splits)


lemma create_calls_prologue:
  "create_calls create_prologue = []"
  "check_then_create L (create_prologue @ n) = check_then_create L n"
  by (simp_all add: create_prologue_def)

text \<open>
  C3. With a spec that parses and validates, the create calls the handler submits are a
  prefix of the specification's order restricted to the objects whose lookup reported
  them missing (the router deployment only with more than 0 router instances); when the
  cluster is not ready and the handler returns, they are exactly that list and none of
  them raised; every create call comes after the lookup of its object.
\<close>

theorem create_order:
  assumes "raises e ParseSpec = None" and "raises e Validate = None"
    and "on_innodbcluster_create e c s = (r, s')"
  shows "prefix (create_calls (new_actions s s')) (filter (must_create e c) spec_creation_order)
    \<and> (\<not> ready c \<and> r = Inr () \<longrightarrow>
           create_calls (new_actions s s') = filter (must_create e c) spec_creation_order
           \<and> (\<forall>d x. Failed (Create d) x \<notin> set (new_actions s s')))
    \<and> check_then_create [] (new_actions s s')
    \<and> (RouterDeployment \<in> set (create_calls (new_actions s s')) \<longrightarrow> router_instances c > 0)"
proof -
  let ?s0 = "s\<lparr>trace := trace s @ create_prologue\<rparr>"
  have core: "prefix (create_calls (new_actions s s')) (filter (must_create e c) spec_creation_order)
    \<and> (\<not> ready c \<and> r = Inr () \<longrightarrow>
           create_calls (new_actions s s') = filter (must_create e c) spec_creation_order
           \<and> (\<forall>d x. Failed (Create d) x \<notin> set (new_actions s s')))
    \<and> check_then_create [] (new_actions s s')"
  proof (cases "ready c")
    case True
    with assms have "s' = ?s0" by (simp add: on_innodbcluster_create_valid)
    then show ?thesis using True
      by (simp add: new_actions_def create_calls_prologue create_prologue_def)
  next
    case False
    obtain r1 s1 where cd: "create_dependents e c ?s0 = (r1, s1)"
      by (cases "create_dependents e c ?s0") auto
    from create_dependents_effect [OF cd] obtain new where new:
      "trace s1 = trace s @ create_prologue @ new"
      "prefix (create_calls new) (filter (must_create e c) spec_creation_order)"
      "r1 = Inr () \<longrightarrow> create_calls new = filter (must_create e c) spec_creation_order
            \<and> (\<forall>d' x. Failed (Create d') x \<notin> set new)"
      "\<forall>L. check_then_create L new"
      by auto
    show ?thesis
    proof (cases r1)
      case (Inl x)
      with assms False cd have rs: "r = Inl x"
        "s' = s1\<lparr>trace := trace s1 @ [Diag ''warn'' ''CreateCluster'' ''CreateResourceFailed'']\<rparr>"
        by (simp_all add: on_innodbcluster_create_valid)
      then have "new_actions s s' =
          create_prologue @ new @ [Diag ''warn'' ''CreateCluster'' ''CreateResourceFailed'']"
        using new(1) by (simp add: new_actions_def)
      then show ?thesis using new(2,4) rs(1)
        by (simp add: create_calls_append create_calls_prologue check_then_create_append)
    next
      case (Inr u)
      with assms False cd have "r = Inr ()" "trace s' = trace s1 @ create_epilogue e"
        by (auto simp: on_innodbcluster_create_valid)
      then have na: "new_actions s s' = create_prologue @ new @ create_epilogue e"
        using new(1) by (simp add: new_actions_def)
      have ep: "create_calls (create_epilogue e) = []"
        "\<And>L. check_then_create L (create_epilogue e)"
        "\<forall>a x. Failed a x \<notin> set (create_epilogue e)" "\<forall>a x. Failed a x \<notin> set create_prologue"
        by (simp_all add: create_epilogue_def create_prologue_def)
      show ?thesis using new(2,3,4) Inr ep
        by (auto simp: na create_calls_append create_calls_prologue check_then_create_append)
    qed
  qed
  moreover have "RouterDeployment \<in> set (create_calls (new_actions s s')) \<longrightarrow> router_instances c > 0"
  proof
    assume "RouterDeployment \<in> set (create_calls (new_actions s s'))"
    with core have "RouterDeployment \<in> set (filter (must_create e c) spec_creation_order)"
      using set_mono_prefix by blast
    then show "router_instances c > 0" by (simp add: must_create_def)
  qed
  ultimately show ?thesis by blast
qed

lemma fresh_create_returns:
  "fst (on_innodbcluster_create env_fresh cluster_new world0) = Inr ()"
  by (simp add: on_innodbcluster_create_def create_dependents_def prepare_and_create_def
      ignore_404_def lookup_def op_defs set_operator_version_def set_status_def
      env_fresh_def cluster_new_def world0_def)

theorem create_order_witness:
  "raises env_fresh ParseSpec = None \<and> raises env_fresh Validate = None
   \<and> \<not> ready cluster_new
   \<and> fst (on_innodbcluster_create env_fresh cluster_new world0) = Inr ()
   \<and> create_calls (new_actions world0 (snd (on_innodbcluster_create env_fresh cluster_new world0)))
       = spec_creation_order
   \<and> RouterDeployment \<in> set (create_calls (new_actions world0
         (snd (on_innodbcluster_create env_fresh cluster_new world0))))
   \<and> router_instances cluster_new > 0"
proof -
  have v: "raises env_fresh ParseSpec = None" "raises env_fresh Validate = None"
    by (simp_all add: env_fresh_def)
  have m: "filter (must_create env_fresh cluster_new) spec_creation_order = spec_creation_order"
    by (simp add: must_create_def lookup_says_missing_def env_fresh_def cluster_new_def
        spec_creation_order_def)
  have nr: "\<not> ready cluster_new" by (simp add: cluster_new_def)
  let ?r = "fst (on_innodbcluster_create env_fresh cluster_new world0)"
  let ?s = "snd (on_innodbcluster_create env_fresh cluster_new world0)"
  have run: "on_innodbcluster_create env_fresh cluster_new world0 = (?r, ?s)" by simp
  note th = create_order [OF v run]
  from th nr fresh_create_returns
  have cc: "create_calls (new_actions world0 ?s) = spec_creation_order"
    unfolding m by blast
  have rd: "RouterDeployment \<in> set (create_calls (new_actions world0 ?s))"
    unfolding cc by (simp add: spec_creation_order_def)
  with th have "router_instances cluster_new > 0" by blast
  with v nr fresh_create_returns cc rd show ?thesis by blast
qed

section \<open>Cluster creation: a second invocation\<close>






section \<open>Spec field handlers on a cluster that is not ready\<close>

lemmas field_defs =
  on_innodbcluster_field_instances_def on_innodbcluster_field_version_def
  on_innodbcluster_field_image_def on_innodbcluster_field_image_repository_def
  on_innodbcluster_field_image_pull_policy_def on_innodbcluster_field_router_instances_def
  on_innodbcluster_field_router_version_def on_innodbcluster_field_backup_schedules_def

text \<open>
  With old equal to new the backupSchedules handler returns at its first line, also
  when the cluster has no create-time: C2 as stated, for that handler, fails.
\<close>

theorem backup_schedules_unchanged_counterexample:
  "get_create_time cluster_new = None
   \<and> on_innodbcluster_field_backup_schedules env_fresh (PyStr ''daily'') (PyStr ''daily'')
        cluster_new world0 = (Inr (), world0)"
  by (simp add: on_innodbcluster_field_backup_schedules_def cluster_new_def op_return_def)

text \<open>
  C2 (amended). On a cluster that is not ready and has no create-time, the handlers of
  instances, version, image, imageRepository, imagePullPolicy, router.instances and
  router.version return without raising and do nothing but log. The backupSchedules
  handler, when old and new differ, raises \<^verbatim>\<open>TemporaryError\<close> with delay 10 after logging,
  with no call to any collaborator; when old and new are equal it returns at once.
\<close>

theorem unready_field_handlers:
  assumes "\<not> ready c" and "get_create_time c = None"
  shows "quiet (on_innodbcluster_field_instances e old new c) s
     \<and> quiet (on_innodbcluster_field_version e old new c) s
     \<and> quiet (on_innodbcluster_field_image e old new c) s
     \<and> quiet (on_innodbcluster_field_image_repository e old new c) s
     \<and> quiet (on_innodbcluster_field_image_pull_policy e old new c) s
     \<and> quiet (on_innodbcluster_field_router_instances e old new c) s
     \<and> quiet (on_innodbcluster_field_router_version e old new c) s
     \<and> (old \<noteq> new \<longrightarrow>
          on_innodbcluster_field_backup_schedules e old new c s
            = (Inl (TemporaryError (Some 10)),
               s\<lparr>trace := trace s @ [Log ''on_innodbcluster_field_backup_schedules'']\<rparr>))
     \<and> (old = new \<longrightarrow> on_innodbcluster_field_backup_schedules e old new c s = (Inr (), s))"
  using assms
  by (simp add: field_defs quiet_def new_actions_def op_defs)

theorem unready_field_handlers_witness:
  "\<not> ready cluster_new \<and> get_create_time cluster_new = None \<and> PyInt 3 \<noteq> PyInt 5
   \<and> quiet (on_innodbcluster_field_instances env_found (PyInt 3) (PyInt 5) cluster_new) world0
   \<and> fst (on_innodbcluster_field_backup_schedules env_found (PyInt 3) (PyInt 5) cluster_new world0)
       = Inl (TemporaryError (Some 10))
   \<and> on_innodbcluster_field_backup_schedules env_found (PyInt 3) (PyInt 3) cluster_new world0
       = (Inr (), world0)"
proof -
  have h: "\<not> ready cluster_new" "get_create_time cluster_new = None"
    by (simp_all add: cluster_new_def)
  from unready_field_handlers [OF h, of env_found "PyInt 3" "PyInt 5" world0]
    unready_field_handlers [OF h, of env_found "PyInt 3" "PyInt 3" world0] h
  show ?thesis by simp
qed

section \<open>The mutex\<close>

text \<open>The handlers of router.instances, router.version and backupSchedules make their
  mutations with the mutex held, and so do the pod handlers their hooks.\<close>

lemma router_and_backup_under_mutex:
  "under_mutex is_mutation False
     (new_actions s (snd (on_innodbcluster_field_router_instances e old new c s)))"
  "under_mutex is_mutation False
     (new_actions s (snd (on_innodbcluster_field_router_version e old new c s)))"
  "under_mutex is_mutation False
     (new_actions s (snd (on_innodbcluster_field_backup_schedules e old new c s)))"
  by (simp_all add: field_defs lookup_def with_ClusterMutex_def op_defs new_actions_def
      split: option.splits sum.splits)

lemma pod_hooks_under_mutex:
  "under_mutex is_pod_hook False (new_actions s (snd (on_pod_create e pod s)))"
  "under_mutex is_pod_hook False (new_actions s (snd (pod_event_attempt e pod s)))"
  "under_mutex is_pod_hook False (new_actions s (snd (on_pod_delete e pod s)))"
  by (simp_all add: on_pod_create_def pod_event_attempt_def on_pod_delete_def
      pod_get_cluster_def probe_status_def ephemeral_get_def ephemeral_set_def
      with_ClusterMutex_def op_defs new_actions_def Let_def
      split: option.splits sum.splits)

text \<open>The handlers of instances, version, image, imageRepository and imagePullPolicy never
  acquire it; a changed instance count that validates is patched without it.\<close>

lemma plain_field_handlers_never_acquire:
  "Acquire \<notin> set (new_actions s (snd (on_innodbcluster_field_instances e old new c s)))"
  "Acquire \<notin> set (new_actions s (snd (on_innodbcluster_field_version e old new c s)))"
  "Acquire \<notin> set (new_actions s (snd (on_innodbcluster_field_image e old new c s)))"
  "Acquire \<notin> set (new_actions s (snd (on_innodbcluster_field_image_repository e old new c s)))"
  "Acquire \<notin> set (new_actions s (snd (on_innodbcluster_field_image_pull_policy e old new c s)))"
  by (simp_all add: field_defs lookup_def op_defs new_actions_def
      split: option.splits sum.splits)

lemma field_instances_patch_without_mutex:
  assumes "ready c" and "getter e StatefulSet = Inr True" and "old \<noteq> new"
    and "raises e Validate = None"
  shows "\<not> under_mutex is_mutation False
     (new_actions s (snd (on_innodbcluster_field_instances e old new c s)))"
  using assms
  by (simp add: field_defs lookup_def op_defs new_actions_def split: option.splits)

text \<open>
  C1, on the code. The spec.instances handler, on a ready cluster with a stateful set and
  a changed value, patches the stateful set without acquiring the cluster mutex: its
  trace has the mutation and no \<open>Acquire\<close>. The spec.router.instances handler, on the same
  input, makes its mutation between \<open>Acquire\<close> and \<open>Release\<close>.
\<close>

theorem field_instances_without_mutex:
  "new_actions world0
      (snd (on_innodbcluster_field_instances env_found (PyInt 3) (PyInt 5) cluster_ready world0))
     = [Lookup StatefulSet, Log ''Updating InnoDB Cluster StatefulSet.replicas'', Validate,
        UpdateStatefulSetSpec (PyInt 5)]
   \<and> \<not> under_mutex is_mutation False (new_actions world0
      (snd (on_innodbcluster_field_instances env_found (PyInt 3) (PyInt 5) cluster_ready world0)))
   \<and> new_actions world0
      (snd (on_innodbcluster_field_router_instances env_found (PyInt 3) (PyInt 5) cluster_ready world0))
     = [Acquire, Log ''Updating Router Deployment.replicas'', Validate,
        RouterUpdateSize (PyInt 5), Release]
   \<and> under_mutex is_mutation False (new_actions world0
      (snd (on_innodbcluster_field_router_instances env_found (PyInt 3) (PyInt 5) cluster_ready world0)))"
  by (simp add: field_defs lookup_def with_ClusterMutex_def op_defs new_actions_def
      env_found_def env_fresh_def cluster_ready_def world0_def)

section \<open>Version and image changes\<close>

lemma field_version_run:
  assumes "ready c" and "getter e StatefulSet = Inr True" and "old \<noteq> new"
  shows "new_actions s (snd (on_innodbcluster_field_version e old new c s)) =
     [Lookup StatefulSet, Log ''Propagating spec.version''] @
     (case raises e ParseSpec of
        Some x \<Rightarrow> [Failed ParseSpec x]
      | None \<Rightarrow> ParseSpec #
          (case raises e (OnServerVersionChange new) of
             Some x \<Rightarrow> [Failed (OnServerVersionChange new) x]
           | None \<Rightarrow> OnServerVersionChange new #
               (case raises e UpdateMysqlImage of
                  Some x \<Rightarrow> [Failed UpdateMysqlImage x]
                | None \<Rightarrow> UpdateMysqlImage #
                    (case getter e RouterDeployment of
                       Inl x \<Rightarrow> [Failed (Lookup RouterDeployment) x]
                     | Inr rd \<Rightarrow> Lookup RouterDeployment #
                         (if rd then (case raises e UpdateRouterImage of
                                        Some x \<Rightarrow> [Failed UpdateRouterImage x]
                                      | None \<Rightarrow> [UpdateRouterImage])
                          else [])))))"
  using assms
  by (simp add: on_innodbcluster_field_version_def lookup_def op_defs new_actions_def
      split: option.splits sum.splits)

lemma field_image_run:
  assumes "ready c" and "getter e StatefulSet = Inr True" and "old \<noteq> new"
  shows "new_actions s (snd (on_innodbcluster_field_image e old new c s)) =
     [Lookup StatefulSet, Log ''Updating MySQL image for InnoDB Cluster StatefulSet pod template''] @
     (case raises e Validate of
        Some x \<Rightarrow> [Failed Validate x]
      | None \<Rightarrow> Validate #
          (case raises e (OnServerImageChange new) of
             Some x \<Rightarrow> [Failed (OnServerImageChange new) x]
           | None \<Rightarrow> OnServerImageChange new #
               (case raises e UpdateMysqlImage of
                  Some x \<Rightarrow> [Failed UpdateMysqlImage x]
                | None \<Rightarrow> [UpdateMysqlImage])))"
  using assms
  by (simp add: on_innodbcluster_field_image_def lookup_def op_defs new_actions_def
      split: option.splits sum.splits)

text \<open>
  C5. On a ready cluster with a stateful set and old different from new, the version and
  image handlers make no mutation before the pre-change hook has returned; when the spec
  re-parses (version) or validates (image) the hook is called; and when the hook raises,
  the handler raises the same exception and its trace has no mutation of the stateful set
  or of the router deployment.
\<close>

theorem prechange_hook_first:
  assumes "ready c" and "getter e StatefulSet = Inr True" and "old \<noteq> new"
  shows "hook_before_mutation False (new_actions s (snd (on_innodbcluster_field_version e old new c s)))
     \<and> hook_before_mutation False (new_actions s (snd (on_innodbcluster_field_image e old new c s)))
     \<and> (raises e ParseSpec = None \<longrightarrow>
          OnServerVersionChange new \<in> set (new_actions s (snd (on_innodbcluster_field_version e old new c s)))
          \<or> (\<exists>x. Failed (OnServerVersionChange new) x
                  \<in> set (new_actions s (snd (on_innodbcluster_field_version e old new c s)))))
     \<and> (raises e Validate = None \<longrightarrow>
          OnServerImageChange new \<in> set (new_actions s (snd (on_innodbcluster_field_image e old new c s)))
          \<or> (\<exists>x. Failed (OnServerImageChange new) x
                  \<in> set (new_actions s (snd (on_innodbcluster_field_image e old new c s)))))
     \<and> (\<forall>x. raises e ParseSpec = None \<and> raises e (OnServerVersionChange new) = Some x \<longrightarrow>
          fst (on_innodbcluster_field_version e old new c s) = Inl x
          \<and> \<not> list_ex is_mutation (new_actions s (snd (on_innodbcluster_field_version e old new c s))))
     \<and> (\<forall>x. raises e Validate = None \<and> raises e (OnServerImageChange new) = Some x \<longrightarrow>
          fst (on_innodbcluster_field_image e old new c s) = Inl x
          \<and> \<not> list_ex is_mutation (new_actions s (snd (on_innodbcluster_field_image e old new c s))))"
proof -
  have res: "\<forall>x. raises e ParseSpec = None \<and> raises e (OnServerVersionChange new) = Some x \<longrightarrow>
      fst (on_innodbcluster_field_version e old new c s) = Inl x"
    "\<forall>x. raises e Validate = None \<and> raises e (OnServerImageChange new) = Some x \<longrightarrow>
      fst (on_innodbcluster_field_image e old new c s) = Inl x"
    using assms
    by (simp_all add: on_innodbcluster_field_version_def on_innodbcluster_field_image_def
        lookup_def op_defs)
  show ?thesis
    unfolding field_version_run [OF assms] field_image_run [OF assms]
    using res by (auto split: option.splits sum.splits)
qed

theorem prechange_hook_first_witness:
  "ready cluster_ready \<and> getter env_hook_fails StatefulSet = Inr True
   \<and> PyStr ''8.0.25'' \<noteq> PyStr ''8.0.26''
   \<and> raises env_hook_fails ParseSpec = None
   \<and> raises env_hook_fails (OnServerVersionChange (PyStr ''8.0.26'')) = Some (OtherError ''upgrade refused'')
   \<and> fst (on_innodbcluster_field_version env_hook_fails (PyStr ''8.0.25'') (PyStr ''8.0.26'')
            cluster_ready world0) = Inl (OtherError ''upgrade refused'')
   \<and> \<not> list_ex is_mutation (new_actions world0
          (snd (on_innodbcluster_field_version env_hook_fails (PyStr ''8.0.25'') (PyStr ''8.0.26'')
                 cluster_ready world0)))
   \<and> fst (on_innodbcluster_field_image env_hook_fails (PyStr ''8.0.25'') (PyStr ''8.0.26'')
            cluster_ready world0) = Inl (OtherError ''upgrade refused'')"
proof -
  have h: "ready cluster_ready" "getter env_hook_fails StatefulSet = Inr True"
    "PyStr ''8.0.25'' \<noteq> PyStr ''8.0.26''"
    by (simp_all add: cluster_ready_def env_hook_fails_def env_found_def)
  have r: "raises env_hook_fails ParseSpec = None" "raises env_hook_fails Validate = None"
    "raises env_hook_fails (OnServerVersionChange (PyStr ''8.0.26'')) = Some (OtherError ''upgrade refused'')"
    "raises env_hook_fails (OnServerImageChange (PyStr ''8.0.26'')) = Some (OtherError ''upgrade refused'')"
    by (simp_all add: env_hook_fails_def)
  from prechange_hook_first [OF h, of world0] r h show ?thesis by blast
qed

section \<open>Preconditions of the pod-create and pod-delete handlers\<close>

text \<open>
  A pod without deletion marker whose \<^verbatim>\<open>configured\<close> gate is not set gets the retryable
  condition before its cluster is looked up, whether or not that cluster exists: C9 as
  stated, for every pod whose cluster cannot be found, fails.
\<close>

theorem pod_create_unconfigured_counterexample:
  "\<not> pod_deleting pod_unconfigured \<and> get_cluster env_orphan = Inr None
   \<and> on_pod_create env_orphan pod_unconfigured world0
       = (Inl (TemporaryError (Some 10)), world0\<lparr>trace := [Log ''POD CREATED'']\<rparr>)"
  by (simp add: on_pod_create_def op_defs pod_unconfigured_def pod0_def env_orphan_def
      world0_def)

text \<open>In general: a pod without deletion marker whose gate is not set gets the retryable
  condition right after the first log line, before any look at its cluster.\<close>

lemma pod_create_unconfigured_retry:
  assumes "\<not> pod_deleting pod" and "\<not> configured pod"
  shows "on_pod_create e pod s
     = (Inl (TemporaryError (Some 10)), s\<lparr>trace := trace s @ [Log ''POD CREATED'']\<rparr>)"
  using assms by (simp add: on_pod_create_def op_defs)

text \<open>
  C9 (amended). A pod-create event whose pod carries a deletion marker fails the
  assertion at once. One whose pod carries none, has its \<^verbatim>\<open>configured\<close> gate set and
  whose \<^verbatim>\<open>get_cluster\<close> gives nothing fails with an attribute error (at the log line
  that reads \<^verbatim>\<open>cluster.deleting\<close>). Neither raises \<^verbatim>\<open>TemporaryError\<close>, acquires the mutex or
  removes the finalizer. The delete handler, for a deleting pod whose cluster is gone,
  removes the pod's finalizer, logs and returns.
\<close>

theorem pod_create_fatal_preconditions:
  "(pod_deleting pod \<longrightarrow> on_pod_create e pod s = (Inl AssertionError, s))
   \<and> (\<not> pod_deleting pod \<and> configured pod \<and> get_cluster e = Inr None \<longrightarrow>
        on_pod_create e pod s
          = (Inl AttributeError, s\<lparr>trace := trace s @ [Log ''POD CREATED'', GetCluster (pod_name pod)]\<rparr>))
   \<and> (pod_deleting pod \<or> (configured pod \<and> get_cluster e = Inr None) \<longrightarrow>
        \<not> is_temporary (fst (on_pod_create e pod s))
        \<and> \<not> list_ex is_finalizer_removal (new_actions s (snd (on_pod_create e pod s)))
        \<and> Acquire \<notin> set (new_actions s (snd (on_pod_create e pod s))))
   \<and> (pod_deleting pod \<and> get_cluster e = Inr None
        \<and> raises e (RemoveMemberFinalizer (pod_name pod)) = None \<longrightarrow>
        on_pod_delete e pod s
          = (Inr (), s\<lparr>trace := trace s @ [GetCluster (pod_name pod),
                RemoveMemberFinalizer (pod_name pod), Log ''Owner cluster does not exist anymore'']\<rparr>))"
  by (cases "pod_deleting pod")
     (simp_all add: on_pod_create_def on_pod_delete_def pod_get_cluster_def op_defs new_actions_def)

theorem pod_create_fatal_preconditions_witness:
  "pod_deleting pod_going \<and> get_cluster env_orphan = Inr None
   \<and> raises env_orphan (RemoveMemberFinalizer (pod_name pod_going)) = None
   \<and> \<not> pod_deleting pod0 \<and> configured pod0
   \<and> fst (on_pod_create env_orphan pod_going world0) = Inl AssertionError
   \<and> fst (on_pod_create env_orphan pod0 world0) = Inl AttributeError
   \<and> \<not> is_temporary (fst (on_pod_create env_orphan pod0 world0))
   \<and> fst (on_pod_delete env_orphan pod_going world0) = Inr ()
   \<and> RemoveMemberFinalizer ''mycluster-0'' \<in> set (trace (snd (on_pod_delete env_orphan pod_going world0)))"
proof -
  have h: "pod_deleting pod_going" "get_cluster env_orphan = Inr None"
    "raises env_orphan (RemoveMemberFinalizer (pod_name pod_going)) = None"
    "\<not> pod_deleting pod0" "configured pod0"
    by (simp_all add: pod_going_def pod0_def env_orphan_def env_fresh_def)
  from pod_create_fatal_preconditions [of pod_going env_orphan world0]
    pod_create_fatal_preconditions [of pod0 env_orphan world0] h
  show ?thesis by (simp add: pod_going_def pod0_def world0_def)
qed

section \<open>The retry loop of the pod-event handler\<close>

lemma on_pod_event_retry:
  assumes "pod_event_attempt (envs n) pod s = (Inl (TemporaryError d), s')"
  shows "on_pod_event envs pod n s = on_pod_event envs pod (Suc n) (retry_sleep d s')"
  by (subst on_pod_event.simps) (simp add: assms)

lemma on_pod_event_done:
  assumes "pod_event_attempt (envs n) pod s = (r, s')" and "\<not> is_temporary r"
  shows "on_pod_event envs pod n s = Some (r, s')"
  using assms
  by (subst on_pod_event.simps) (auto split: sum.splits exn.splits)

lemma on_pod_event_attempts:
  assumes "\<not> is_temporary (fst (pod_event_attempts envs pod n k s))"
  shows "on_pod_event envs pod n s = Some (pod_event_attempts envs pod n k s)"
  using assms
proof (induction k arbitrary: n s)
  case 0
  then show ?case
    using on_pod_event_done [of envs n pod s "fst (pod_event_attempt (envs n) pod s)"
        "snd (pod_event_attempt (envs n) pod s)"]
    by simp
next
  case (Suc k)
  obtain r s' where a: "pod_event_attempt (envs n) pod s = (r, s')"
    by (cases "pod_event_attempt (envs n) pod s") auto
  show ?case
  proof (cases "is_temporary r")
    case True
    then obtain d where r: "r = Inl (TemporaryError d)"
      by (cases r rule: is_temporary.cases) auto
    with a Suc.prems
    have "\<not> is_temporary (fst (pod_event_attempts envs pod (Suc n) k (retry_sleep d s')))"
      by simp
    from Suc.IH [OF this] a r show ?thesis
      by (simp add: on_pod_event_retry)
  next
    case False
    with a have "pod_event_attempts envs pod n (Suc k) s = (r, s')"
      by (cases r rule: is_temporary.cases) auto
    with on_pod_event_done [of envs n pod s r s', OF a False] show ?thesis by simp
  qed
qed

lemma on_pod_event_Some:
  assumes "on_pod_event envs pod n s = Some y"
  shows "\<exists>k. pod_event_attempts envs pod n k s = y \<and> \<not> is_temporary (fst y)"
  using assms
proof (induction envs pod n s y rule: on_pod_event.raw_induct [rotated 1, consumes 1, case_names step])
  case (step f envs pod n s y)
  obtain r s' where a: "pod_event_attempt (envs n) pod s = (r, s')"
    by (cases "pod_event_attempt (envs n) pod s") auto
  show ?case
  proof (cases "is_temporary r")
    case True
    then obtain d where r: "r = Inl (TemporaryError d)"
      by (cases r rule: is_temporary.cases) auto
    with a step(2) have "f envs pod (Suc n) (retry_sleep d s') = Some y" by simp
    from step(1) [OF this] obtain k where
      "pod_event_attempts envs pod (Suc n) k (retry_sleep d s') = y" "\<not> is_temporary (fst y)"
      by blast
    with a r have "pod_event_attempts envs pod n (Suc k) s = y \<and> \<not> is_temporary (fst y)"
      by simp
    then show ?thesis by blast
  next
    case False
    with a step(2) have "y = (r, s')"
      by (cases r rule: is_temporary.cases) auto
    with a False have "pod_event_attempts envs pod n 0 s = y \<and> \<not> is_temporary (fst y)"
      by simp
    then show ?thesis by blast
  qed
qed

lemma attempts_invariant:
  assumes "I s"
    and "\<And>e t. I t \<Longrightarrow> I (snd (pod_event_attempt e pod t))"
    and "\<And>d t. I t \<Longrightarrow> I (retry_sleep d t)"
  shows "I (snd (pod_event_attempts envs pod n k s))"
  using assms(1)
proof (induction k arbitrary: n s)
  case 0
  then show ?case by (simp add: assms(2))
next
  case (Suc k)
  obtain r s' where a: "pod_event_attempt (envs n) pod s = (r, s')"
    by (cases "pod_event_attempt (envs n) pod s") auto
  have s': "I s'" using assms(2) [OF Suc.prems, of "envs n"] a by simp
  show ?case
  proof (cases "is_temporary r")
    case True
    then obtain d where r: "r = Inl (TemporaryError d)"
      by (cases r rule: is_temporary.cases) auto
    from Suc.IH [OF assms(3) [OF s', of d]] a r show ?thesis by simp
  next
    case False
    with a have "pod_event_attempts envs pod n (Suc k) s = (r, s')"
      by (cases r rule: is_temporary.cases) auto
    with s' show ?thesis by simp
  qed
qed

lemma on_pod_event_invariant:
  assumes "on_pod_event envs pod n s = Some (r, s')" and "I s"
    and "\<And>e t. I t \<Longrightarrow> I (snd (pod_event_attempt e pod t))"
    and "\<And>d t. I t \<Longrightarrow> I (retry_sleep d t)"
  shows "I s'"
proof -
  from on_pod_event_Some [OF assms(1)] obtain k where
    "pod_event_attempts envs pod n k s = (r, s')" by blast
  with attempts_invariant [of I s pod envs n k, OF assms(2) assms(3) assms(4)]
  show ?thesis by simp
qed

lemmas pod_event_defs =
  pod_event_attempt_def pod_get_cluster_def probe_status_def ephemeral_get_def
  ephemeral_set_def with_ClusterMutex_def

lemma notifications_append: "notifications (a @ b) = notifications a + notifications b"
  by (simp add: notifications_def)

lemma new_actions_append: "trace s' = trace s @ new \<Longrightarrow> new_actions s s' = new"
  by (simp add: new_actions_def)

lemma retry_sleep_effect:
  "\<exists>new. trace (retry_sleep d t) = trace t @ new \<and> notifications new = 0
     \<and> ephemeral (retry_sleep d t) = ephemeral t"
  by (simp add: retry_sleep_def notifications_def split: option.splits)

lemma attempt_extends:
  "\<exists>new. trace (snd (pod_event_attempt e pod s)) = trace s @ new
     \<and> operator_version (snd (pod_event_attempt e pod s)) = operator_version s
     \<and> cluster_status (snd (pod_event_attempt e pod s)) = cluster_status s"
  by (auto simp: pod_event_defs op_defs Let_def split: sum.splits option.splits prod.splits)

lemma unknown_attempt:
  "fst (pod_event_attempt env_unknown pod0 s) = Inl (TemporaryError (Some 15))"
  by (simp add: pod_event_attempt_def pod_get_cluster_def probe_status_def ephemeral_get_def
      ephemeral_set_def with_ClusterMutex_def op_defs env_unknown_def env_fresh_def pod0_def
      split: prod.splits)

lemma unknown_attempts:
  "is_temporary (fst (pod_event_attempts envs_unknown pod0 n k s))"
proof (induction k arbitrary: n s)
  case 0
  show ?case using unknown_attempt [of s] by (simp add: envs_unknown_def)
next
  case (Suc k)
  obtain s' where "pod_event_attempt env_unknown pod0 s = (Inl (TemporaryError (Some 15)), s')"
    using unknown_attempt [of s] by (cases "pod_event_attempt env_unknown pod0 s") auto
  then show ?case using Suc.IH by (simp add: envs_unknown_def)
qed

text \<open>
  With a probe that answers UNKNOWN in every pass the handler never returns: C7 as stated,
  with a bounded loop, fails.
\<close>

theorem pod_event_unbounded_counterexample:
  "on_pod_event envs_unknown pod0 0 world0 = None"
proof (rule ccontr)
  assume "on_pod_event envs_unknown pod0 0 world0 \<noteq> None"
  then obtain y where "on_pod_event envs_unknown pod0 0 world0 = Some y" by blast
  from on_pod_event_Some [OF this] unknown_attempts show False by blast
qed

text \<open>
  C7 (amended). A pass of the pod-event handler that raises \<^verbatim>\<open>TemporaryError\<close> is
  followed, within the same invocation, by the log line, a sleep of the requested delay
  when that delay is truthy, and the next pass; the probe answering UNKNOWN raises it
  with delay 15. The loop has no bound of its own: the handler returns exactly when some
  pass ends without \<^verbatim>\<open>TemporaryError\<close>, and then with the outcome of that pass.
\<close>

theorem pod_event_retry_loop:
  "(pod_event_attempt (envs n) pod s = (Inl (TemporaryError d), s') \<longrightarrow>
      on_pod_event envs pod n s = on_pod_event envs pod (Suc n) (retry_sleep d s')
      \<and> new_actions s' (retry_sleep d s')
          = Log ''retrying'' # (case d of None \<Rightarrow> [] | Some t \<Rightarrow> if t = 0 then [] else [Sleep t]))
   \<and> (phase pod = ''Running'' \<and> \<not> pod_deleting pod \<and> membership_info pod
        \<and> get_cluster (envs n) = Inr (Some c)
        \<and> raises (envs n) (OnPodRestarted pod) = None
        \<and> probe_status_if_needed (envs n) = Inr UNKNOWN \<longrightarrow>
        fst (pod_event_attempt (envs n) pod s) = Inl (TemporaryError (Some 15)))
   \<and> ((\<exists>y. on_pod_event envs pod n s = Some y)
        \<longleftrightarrow> (\<exists>k. \<not> is_temporary (fst (pod_event_attempts envs pod n k s))))
   \<and> (\<forall>k. \<not> is_temporary (fst (pod_event_attempts envs pod n k s)) \<longrightarrow>
        on_pod_event envs pod n s = Some (pod_event_attempts envs pod n k s))"
proof -
  have step: "pod_event_attempt (envs n) pod s = (Inl (TemporaryError d), s') \<longrightarrow>
      on_pod_event envs pod n s = on_pod_event envs pod (Suc n) (retry_sleep d s')
      \<and> new_actions s' (retry_sleep d s')
          = Log ''retrying'' # (case d of None \<Rightarrow> [] | Some t \<Rightarrow> if t = 0 then [] else [Sleep t])"
    by (simp add: on_pod_event_retry new_actions_def retry_sleep_def)
  have unk: "phase pod = ''Running'' \<and> \<not> pod_deleting pod \<and> membership_info pod
        \<and> get_cluster (envs n) = Inr (Some c)
        \<and> raises (envs n) (OnPodRestarted pod) = None
        \<and> probe_status_if_needed (envs n) = Inr UNKNOWN \<longrightarrow>
        fst (pod_event_attempt (envs n) pod s) = Inl (TemporaryError (Some 15))"
    by (simp add: pod_event_defs op_defs Let_def)
  have iff: "(\<exists>y. on_pod_event envs pod n s = Some y)
        \<longleftrightarrow> (\<exists>k. \<not> is_temporary (fst (pod_event_attempts envs pod n k s)))"
    using on_pod_event_Some [of envs pod n s] on_pod_event_attempts [of envs pod n _ s]
    by metis
  from step unk iff on_pod_event_attempts [of envs pod n _ s] show ?thesis by blast
qed

lemma recover_first:
  "pod_event_attempt env_unknown pod0 world0 =
     (Inl (TemporaryError (Some 15)),
      world0\<lparr>trace := [Log ''POD EVENT'', GetCluster ''mycluster-0'', Acquire,
          OnPodRestarted pod0, SetEphemeral ''mycluster-0'' (Some 1),
          ProbeStatus ''mycluster-0'', Release],
        ephemeral := (ephemeral world0)(''mycluster-0'' := Some 1)\<rparr>)"
  by (simp add: pod_event_defs op_defs Let_def env_unknown_def env_fresh_def pod0_def world0_def)

lemma recover_run:
  "pod_event_attempts envs_recover pod0 0 (Suc 0) world0 =
     (Inr (),
      world0\<lparr>trace := [Log ''POD EVENT'', GetCluster ''mycluster-0'', Acquire,
          OnPodRestarted pod0, SetEphemeral ''mycluster-0'' (Some 1),
          ProbeStatus ''mycluster-0'', Release, Log ''retrying'', Sleep 15,
          Log ''POD EVENT'', GetCluster ''mycluster-0'', Acquire,
          ProbeStatus ''mycluster-0'', Release],
        ephemeral := (ephemeral world0)(''mycluster-0'' := Some 1)\<rparr>)"
  by (simp add: envs_recover_def recover_first retry_sleep_def)
     (simp add: pod_event_defs op_defs Let_def env_fresh_def pod0_def world0_def)

theorem pod_event_retry_loop_witness:
  "pod_event_attempt (envs_recover 0) pod0 world0
     = (Inl (TemporaryError (Some 15)), snd (pod_event_attempt env_unknown pod0 world0))
   \<and> new_actions (snd (pod_event_attempt env_unknown pod0 world0))
        (retry_sleep (Some 15) (snd (pod_event_attempt env_unknown pod0 world0)))
       = [Log ''retrying'', Sleep 15]
   \<and> \<not> is_temporary (fst (pod_event_attempts envs_recover pod0 0 (Suc 0) world0))
   \<and> on_pod_event envs_recover pod0 0 world0
       = Some (pod_event_attempts envs_recover pod0 0 (Suc 0) world0)
   \<and> Sleep 15 \<in> set (trace (snd (pod_event_attempts envs_recover pod0 0 (Suc 0) world0)))"
proof -
  let ?s' = "snd (pod_event_attempt env_unknown pod0 world0)"
  have a: "pod_event_attempt (envs_recover 0) pod0 world0 = (Inl (TemporaryError (Some 15)), ?s')"
    by (simp add: envs_recover_def recover_first)
  have t: "\<not> is_temporary (fst (pod_event_attempts envs_recover pod0 0 (Suc 0) world0))"
    unfolding recover_run by simp
  have sl: "Sleep 15 \<in> set (trace (snd (pod_event_attempts envs_recover pod0 0 (Suc 0) world0)))"
    unfolding recover_run by simp
  note th = pod_event_retry_loop [of envs_recover 0 pod0 world0 "Some 15" ?s' cluster_new]
  from th a have "new_actions ?s' (retry_sleep (Some 15) ?s') = [Log ''retrying'', Sleep 15]"
    by simp
  moreover from th t have "on_pod_event envs_recover pod0 0 world0
       = Some (pod_event_attempts envs_recover pod0 0 (Suc 0) world0)"
    by blast
  ultimately show ?thesis using a t sl by blast
qed

section \<open>Restart detection\<close>

lemma attempt_seen:
  assumes "ephemeral s (pod_name pod) = mysql_restarts pod \<or> \<not> containers_ready pod"
  shows "\<exists>new. trace (snd (pod_event_attempt e pod s)) = trace s @ new
     \<and> notifications new = 0
     \<and> ephemeral (snd (pod_event_attempt e pod s)) = ephemeral s"
  using assms
  by (auto simp: pod_event_defs op_defs Let_def notifications_def
      split: sum.splits option.splits prod.splits)

lemma attempt_fires:
  assumes "phase pod = ''Running''" and "\<not> pod_deleting pod" and "membership_info pod"
    and "containers_ready pod"
    and "ephemeral s (pod_name pod) \<noteq> mysql_restarts pod"
    and "get_cluster e = Inr (Some c)"
    and "raises e (OnPodRestarted pod) = None"
  shows "\<exists>new. trace (snd (pod_event_attempt e pod s)) = trace s @ new
     \<and> notifications new = 1 \<and> OnPodRestarted pod \<in> set new
     \<and> ephemeral (snd (pod_event_attempt e pod s)) = (ephemeral s)(pod_name pod := mysql_restarts pod)"
  using assms
  by (auto simp: pod_event_defs op_defs Let_def notifications_def
      split: sum.splits option.splits prod.splits)

text \<open>While the stored count equals the pod's count, or some container is not ready,
  no run of the loop notifies or stores.\<close>

lemma quiet_attempts:
  assumes "ephemeral s (pod_name pod) = mysql_restarts pod \<or> \<not> containers_ready pod"
    and "trace s = tr @ pre" and "notifications pre = k"
  shows "\<exists>new. trace (snd (pod_event_attempts envs pod n j s)) = tr @ new
     \<and> notifications new = k
     \<and> (\<forall>a\<in>set pre. a \<in> set new)
     \<and> ephemeral (snd (pod_event_attempts envs pod n j s)) = ephemeral s"
proof -
  let ?I = "\<lambda>t. \<exists>new. trace t = tr @ new \<and> notifications new = k
     \<and> (\<forall>a\<in>set pre. a \<in> set new)
     \<and> ephemeral t = ephemeral s"
  have start: "?I s" using assms(2,3) by auto
  have att: "?I (snd (pod_event_attempt e pod t))" if "?I t" for e t
  proof -
    from that obtain new where new: "trace t = tr @ new" "notifications new = k"
      "\<forall>a\<in>set pre. a \<in> set new" "ephemeral t = ephemeral s"
      by blast
    from attempt_seen [of t pod e] new(4) assms(1) obtain n2 where
      "trace (snd (pod_event_attempt e pod t)) = trace t @ n2" "notifications n2 = 0"
      "ephemeral (snd (pod_event_attempt e pod t)) = ephemeral t"
      by auto
    with new have "trace (snd (pod_event_attempt e pod t)) = tr @ (new @ n2)
      \<and> notifications (new @ n2) = k \<and> (\<forall>a\<in>set pre. a \<in> set (new @ n2))
      \<and> ephemeral (snd (pod_event_attempt e pod t)) = ephemeral s"
      by (simp add: notifications_append)
    then show ?thesis by blast
  qed
  have slp: "?I (retry_sleep d t)" if "?I t" for d t
  proof -
    from that obtain new where new: "trace t = tr @ new" "notifications new = k"
      "\<forall>a\<in>set pre. a \<in> set new" "ephemeral t = ephemeral s"
      by blast
    from retry_sleep_effect [of d t] obtain n2 where
      "trace (retry_sleep d t) = trace t @ n2" "notifications n2 = 0"
      "ephemeral (retry_sleep d t) = ephemeral t"
      by blast
    with new have "trace (retry_sleep d t) = tr @ (new @ n2)
      \<and> notifications (new @ n2) = k \<and> (\<forall>a\<in>set pre. a \<in> set (new @ n2))
      \<and> ephemeral (retry_sleep d t) = ephemeral s"
      by (simp add: notifications_append)
    then show ?thesis by blast
  qed
  from attempts_invariant [of ?I s pod envs n j, OF start att slp]
  show ?thesis .
qed

lemma quiet_run:
  assumes "on_pod_event envs pod n s = Some (r, s')"
    and "ephemeral s (pod_name pod) = mysql_restarts pod \<or> \<not> containers_ready pod"
    and "trace s = tr @ pre" and "notifications pre = k"
  shows "\<exists>new. trace s' = tr @ new \<and> notifications new = k
     \<and> (\<forall>a\<in>set pre. a \<in> set new)
     \<and> ephemeral s' = ephemeral s"
proof -
  from on_pod_event_Some [OF assms(1)] obtain j where
    "pod_event_attempts envs pod n j s = (r, s')" by blast
  with quiet_attempts [OF assms(2-4), of envs n j] show ?thesis by simp
qed

lemma fresh_attempt_seen0:
  "pod_event_attempt env_fresh pod0 world_seen0 =
     (Inr (), world_seen0\<lparr>trace := [Log ''POD EVENT'', GetCluster ''mycluster-0'', Acquire,
          OnPodRestarted pod0, SetEphemeral ''mycluster-0'' (Some 1),
          ProbeStatus ''mycluster-0'', Release],
        ephemeral := (ephemeral world_seen0)(''mycluster-0'' := Some 1)\<rparr>)"
  by (simp add: pod_event_defs op_defs Let_def env_fresh_def pod0_def world_seen0_def world0_def)

text \<open>
  For a pod whose cluster does not resolve, the handler returns before the hook and the
  store: C6 as stated, without that condition, fails.
\<close>

theorem restart_dropped_for_orphan_counterexample:
  "phase pod0 = ''Running'' \<and> \<not> pod_deleting pod0 \<and> membership_info pod0
   \<and> containers_ready pod0
   \<and> ephemeral world_seen0 (pod_name pod0) = Some 0 \<and> mysql_restarts pod0 = Some (Suc 0)
   \<and> on_pod_event envs_orphan pod0 0 world_seen0
       = Some (Inr (), world_seen0\<lparr>trace := [Log ''POD EVENT'', GetCluster ''mycluster-0'',
            Log ''Ignoring event for pod belonging to a deleted cluster'']\<rparr>)
   \<and> notifications [Log ''POD EVENT'', GetCluster ''mycluster-0'',
            Log ''Ignoring event for pod belonging to a deleted cluster''] = 0"
proof -
  have a: "pod_event_attempt (envs_orphan 0) pod0 world_seen0
       = (Inr (), world_seen0\<lparr>trace := [Log ''POD EVENT'', GetCluster ''mycluster-0'',
            Log ''Ignoring event for pod belonging to a deleted cluster'']\<rparr>)"
    by (simp add: pod_event_defs op_defs Let_def envs_orphan_def env_orphan_def env_fresh_def
        pod0_def world_seen0_def world0_def)
  have "\<not> is_temporary (Inr ())" by simp
  from on_pod_event_done [of envs_orphan 0 pod0 world_seen0, OF a this]
  show ?thesis
    by (simp add: pod0_def world_seen0_def world0_def notifications_def)
qed

text \<open>When the hook raises the retryable condition in the first pass and returns in the
  second, it has been called twice: the count of one needs a hook that returns.\<close>

lemma hook_raising_called_twice:
  "notifications (new_actions world_seen0
      (snd (pod_event_attempts envs_hook_busy pod0 0 (Suc 0) world_seen0))) = 2
   \<and> fst (pod_event_attempts envs_hook_busy pod0 0 (Suc 0) world_seen0) = Inr ()"
proof -
  have a: "pod_event_attempt env_hook_busy pod0 world_seen0 =
     (Inl (TemporaryError (Some 10)),
      world_seen0\<lparr>trace := [Log ''POD EVENT'', GetCluster ''mycluster-0'', Acquire,
          Failed (OnPodRestarted pod0) (TemporaryError (Some 10)), Release]\<rparr>)"
    by (simp add: pod_event_defs op_defs Let_def env_hook_busy_def env_fresh_def pod0_def
        world_seen0_def world0_def)
  have b: "pod_event_attempts envs_hook_busy pod0 0 (Suc 0) world_seen0 =
     (Inr (),
      world_seen0\<lparr>trace := [Log ''POD EVENT'', GetCluster ''mycluster-0'', Acquire,
          Failed (OnPodRestarted pod0) (TemporaryError (Some 10)), Release,
          Log ''retrying'', Sleep 10,
          Log ''POD EVENT'', GetCluster ''mycluster-0'', Acquire,
          OnPodRestarted pod0, SetEphemeral ''mycluster-0'' (Some 1),
          ProbeStatus ''mycluster-0'', Release],
        ephemeral := (ephemeral world_seen0)(''mycluster-0'' := Some 1)\<rparr>)"
    by (simp add: envs_hook_busy_def a retry_sleep_def)
       (simp add: pod_event_defs op_defs Let_def env_fresh_def pod0_def world_seen0_def
         world0_def)
  show ?thesis
    unfolding b by (simp add: new_actions_def notifications_def world_seen0_def world0_def)
qed

lemma restart_detection_first:
  assumes run: "phase pod = ''Running''" "\<not> pod_deleting pod" "membership_info pod"
      "containers_ready pod"
    and cnt: "ephemeral s (pod_name pod) = Some N" "mysql_restarts pod = Some (Suc N)"
    and cl: "get_cluster (envs 0) = Inr (Some c)"
    and hook: "raises (envs 0) (OnPodRestarted pod) = None"
    and first: "on_pod_event envs pod 0 s = Some (r1, s1)"
  shows "notifications (new_actions s s1) = 1
     \<and> OnPodRestarted pod \<in> set (new_actions s s1)
     \<and> ephemeral s1 (pod_name pod) = Some (Suc N)"
proof -
  obtain ra sa where a: "pod_event_attempt (envs 0) pod s = (ra, sa)"
    by (cases "pod_event_attempt (envs 0) pod s") auto
  have ne: "ephemeral s (pod_name pod) \<noteq> mysql_restarts pod" using cnt by simp
  from attempt_fires [OF run ne cl hook] a obtain n0 where n0:
    "trace sa = trace s @ n0" "notifications n0 = 1" "OnPodRestarted pod \<in> set n0"
    "ephemeral sa (pod_name pod) = mysql_restarts pod"
    by auto
  have "\<exists>new. trace s1 = trace s @ new \<and> notifications new = 1
     \<and> (\<forall>a\<in>set n0. a \<in> set new) \<and> ephemeral s1 (pod_name pod) = mysql_restarts pod"
  proof (cases "is_temporary ra")
    case True
    then obtain d where ra: "ra = Inl (TemporaryError d)"
      by (cases ra rule: is_temporary.cases) auto
    from retry_sleep_effect [of d sa] obtain n1 where n1:
      "trace (retry_sleep d sa) = trace s @ (n0 @ n1)" "notifications (n0 @ n1) = 1"
      "ephemeral (retry_sleep d sa) (pod_name pod) = mysql_restarts pod"
      using n0 by (auto simp: notifications_append)
    from first a ra have "on_pod_event envs pod (Suc 0) (retry_sleep d sa) = Some (r1, s1)"
      by (simp add: on_pod_event_retry)
    from quiet_run [OF this disjI1 [OF n1(3)] n1(1) n1(2)] n1(3) show ?thesis by auto
  next
    case False
    from on_pod_event_done [of envs 0 pod s ra sa, OF a False] first have "s1 = sa" by simp
    with n0 show ?thesis by auto
  qed
  then obtain new where new: "trace s1 = trace s @ new" "notifications new = 1"
    "OnPodRestarted pod \<in> set new" "ephemeral s1 (pod_name pod) = mysql_restarts pod"
    using n0(3) by blast
  show ?thesis
    using new cnt by (simp add: new_actions_append)
qed

lemma restart_detection_second:
  assumes "ephemeral s1 (pod_name pod2) = mysql_restarts pod2"
    and second: "on_pod_event envs2 pod2 0 s1 = Some (r2, s2)"
  shows "notifications (new_actions s1 s2) = 0 \<and> ephemeral s2 = ephemeral s1"
proof -
  from quiet_run [OF second disjI1 [OF assms(1)], of "trace s1" "[]" 0] obtain n2 where n2:
    "trace s2 = trace s1 @ n2" "notifications n2 = 0" "ephemeral s2 = ephemeral s1"
    by (auto simp: notifications_def)
  then show ?thesis by (simp add: new_actions_append)
qed

lemma restart_detection_attempts:
  assumes run: "phase pod = ''Running''" "\<not> pod_deleting pod" "membership_info pod"
      "containers_ready pod"
    and cnt: "ephemeral s (pod_name pod) = Some N" "mysql_restarts pod = Some (Suc N)"
    and cl: "get_cluster (envs 0) = Inr (Some c)"
    and hook: "raises (envs 0) (OnPodRestarted pod) = None"
  shows "notifications (new_actions s (snd (pod_event_attempts envs pod 0 j s))) = 1
     \<and> ephemeral (snd (pod_event_attempts envs pod 0 j s)) (pod_name pod) = Some (Suc N)"
proof -
  obtain ra sa where a: "pod_event_attempt (envs 0) pod s = (ra, sa)"
    by (cases "pod_event_attempt (envs 0) pod s") auto
  have ne: "ephemeral s (pod_name pod) \<noteq> mysql_restarts pod" using cnt by simp
  from attempt_fires [OF run ne cl hook] a obtain n0 where n0:
    "trace sa = trace s @ n0" "notifications n0 = 1"
    "ephemeral sa (pod_name pod) = mysql_restarts pod"
    by auto
  have "\<exists>new. trace (snd (pod_event_attempts envs pod 0 j s)) = trace s @ new
     \<and> notifications new = 1
     \<and> ephemeral (snd (pod_event_attempts envs pod 0 j s)) (pod_name pod) = mysql_restarts pod"
  proof (cases "j = 0 \<or> \<not> is_temporary ra")
    case True
    then have "pod_event_attempts envs pod 0 j s = (ra, sa)"
      using a by (cases j; cases ra rule: is_temporary.cases) auto
    with n0 show ?thesis by auto
  next
    case False
    then obtain j' d where j: "j = Suc j'" and ra: "ra = Inl (TemporaryError d)"
      by (cases j; cases ra rule: is_temporary.cases) auto
    from retry_sleep_effect [of d sa] obtain n1 where n1:
      "trace (retry_sleep d sa) = trace s @ (n0 @ n1)" "notifications (n0 @ n1) = 1"
      "ephemeral (retry_sleep d sa) (pod_name pod) = mysql_restarts pod"
      using n0 by (auto simp: notifications_append)
    have "pod_event_attempts envs pod 0 j s
        = pod_event_attempts envs pod (Suc 0) j' (retry_sleep d sa)"
      using a j ra by simp
    with quiet_attempts [OF disjI1 [OF n1(3)] n1(1) n1(2), of envs "Suc 0" j'] n1(3)
    show ?thesis by auto
  qed
  then show ?thesis using cnt by (auto simp: new_actions_append)
qed

text \<open>
  C6 (amended). For a running, non-deleting member pod with membership info and all
  containers ready, whose owning cluster resolves and whose pod-restarted hook returns:
  when the stored count is N and the pod's mysql restart count is N+1, the handler has
  called the pod-restarted hook exactly once and has stored N+1 after every number of
  passes through its loop, and so when it returns; a later run for the same pod name and
  count calls the hook not at all and leaves N+1.
\<close>

theorem restart_detection:
  assumes run: "phase pod = ''Running''" "\<not> pod_deleting pod" "membership_info pod"
      "containers_ready pod"
    and cnt: "ephemeral s (pod_name pod) = Some N" "mysql_restarts pod = Some (Suc N)"
    and cl: "get_cluster (envs 0) = Inr (Some c)"
    and hook: "raises (envs 0) (OnPodRestarted pod) = None"
  shows "(\<forall>j. notifications (new_actions s (snd (pod_event_attempts envs pod 0 j s))) = 1
            \<and> ephemeral (snd (pod_event_attempts envs pod 0 j s)) (pod_name pod) = Some (Suc N))
     \<and> (\<forall>r1 s1. on_pod_event envs pod 0 s = Some (r1, s1) \<longrightarrow>
           notifications (new_actions s s1) = 1
           \<and> OnPodRestarted pod \<in> set (new_actions s s1)
           \<and> ephemeral s1 (pod_name pod) = Some (Suc N)
           \<and> (\<forall>envs2 pod2 r2 s2.
                 pod_name pod2 = pod_name pod \<and> mysql_restarts pod2 = Some (Suc N)
                 \<and> on_pod_event envs2 pod2 0 s1 = Some (r2, s2) \<longrightarrow>
                 notifications (new_actions s1 s2) = 0
                 \<and> ephemeral s2 (pod_name pod) = Some (Suc N)))"
proof -
  have "notifications (new_actions s1 s2) = 0 \<and> ephemeral s2 (pod_name pod) = Some (Suc N)"
    if "ephemeral s1 (pod_name pod) = Some (Suc N)" "pod_name pod2 = pod_name pod"
      "mysql_restarts pod2 = Some (Suc N)" "on_pod_event envs2 pod2 0 s1 = Some (r2, s2)"
    for s1 envs2 pod2 r2 s2
    using restart_detection_second [of s1 pod2 envs2 r2 s2] that by simp
  with restart_detection_attempts [where envs = envs, OF assms]
    restart_detection_first [where envs = envs, OF assms]
  show ?thesis by blast
qed

theorem restart_detection_witness:
  "phase pod0 = ''Running'' \<and> \<not> pod_deleting pod0 \<and> membership_info pod0
   \<and> containers_ready pod0
   \<and> ephemeral world_seen0 (pod_name pod0) = Some 0 \<and> mysql_restarts pod0 = Some (Suc 0)
   \<and> get_cluster (envs_fresh 0) = Inr (Some cluster_new)
   \<and> raises (envs_fresh 0) (OnPodRestarted pod0) = None
   \<and> on_pod_event envs_fresh pod0 0 world_seen0
        = Some (pod_event_attempt env_fresh pod0 world_seen0)
   \<and> on_pod_event envs_fresh pod0 0 (snd (pod_event_attempt env_fresh pod0 world_seen0))
        = Some (pod_event_attempt env_fresh pod0 (snd (pod_event_attempt env_fresh pod0 world_seen0)))
   \<and> notifications (new_actions world_seen0 (snd (pod_event_attempt env_fresh pod0 world_seen0))) = 1
   \<and> notifications (new_actions (snd (pod_event_attempt env_fresh pod0 world_seen0))
        (snd (pod_event_attempt env_fresh pod0 (snd (pod_event_attempt env_fresh pod0 world_seen0))))) = 0"
proof -
  let ?s1 = "snd (pod_event_attempt env_fresh pod0 world_seen0)"
  let ?a2 = "pod_event_attempt env_fresh pod0 ?s1"
  have h: "phase pod0 = ''Running''" "\<not> pod_deleting pod0" "membership_info pod0"
    "containers_ready pod0"
    and c: "ephemeral world_seen0 (pod_name pod0) = Some 0" "mysql_restarts pod0 = Some (Suc 0)"
    and g: "get_cluster (envs_fresh 0) = Inr (Some cluster_new)"
    and k: "raises (envs_fresh 0) (OnPodRestarted pod0) = None"
    by (simp_all add: pod0_def world_seen0_def envs_fresh_def env_fresh_def)
  have a1: "pod_event_attempt (envs_fresh 0) pod0 world_seen0 = (Inr (), ?s1)"
    by (simp add: envs_fresh_def fresh_attempt_seen0)
  have r1: "on_pod_event envs_fresh pod0 0 world_seen0 = Some (Inr (), ?s1)"
    by (rule on_pod_event_done [of envs_fresh 0 pod0 world_seen0, OF a1]) simp
  have f2: "fst ?a2 = Inr ()"
    by (simp add: fresh_attempt_seen0)
       (simp add: pod_event_defs op_defs Let_def env_fresh_def pod0_def)
  have a2: "pod_event_attempt (envs_fresh 0) pod0 ?s1 = (Inr (), snd ?a2)"
    using f2 by (simp add: envs_fresh_def prod_eq_iff)
  have r2: "on_pod_event envs_fresh pod0 0 ?s1 = Some (Inr (), snd ?a2)"
    by (rule on_pod_event_done [of envs_fresh 0 pod0 ?s1, OF a2]) simp
  have e1: "pod_event_attempt env_fresh pod0 world_seen0 = (Inr (), ?s1)"
    using a1 by (simp add: envs_fresh_def)
  have e2: "?a2 = (Inr (), snd ?a2)" using f2 by (simp add: prod_eq_iff)
  note th = restart_detection [where envs = envs_fresh, OF h c g k]
  have "pod_name pod0 = pod_name pod0 \<and> mysql_restarts pod0 = Some (Suc 0)
    \<and> on_pod_event envs_fresh pod0 0 ?s1 = Some (Inr (), snd ?a2)"
    using c(2) r2 by simp
  with th r1
  have "notifications (new_actions world_seen0 ?s1) = 1
    \<and> notifications (new_actions ?s1 (snd ?a2)) = 0" by blast
  with h c g k r1 r2 e1 e2 show ?thesis by metis
qed

section \<open>The stored restart count\<close>

lemma preserves_return: "preserves I (op_return x)"
  by (simp add: preserves_def op_return_def)

lemma preserves_raise: "preserves I (op_raise x)"
  by (simp add: preserves_def op_raise_def)

lemma preserves_bind:
  assumes "preserves I m" and "\<And>x. preserves I (f x)"
  shows "preserves I (op_bind m f)"
  using assms
  by (auto simp: preserves_def op_bind_def split: prod.splits sum.splits)

lemma preserves_block_Nil: "preserves I (block [])"
  by (simp add: preserves_return)

lemma preserves_block_Cons:
  assumes "preserves I m" and "preserves I (block ms)"
  shows "preserves I (block (m # ms))"
  using assms by (simp add: preserves_bind)

lemma preserves_when:
  assumes "preserves I m"
  shows "preserves I (op_when b m)"
  using assms by (simp add: op_when_def preserves_return)

lemma preserves_if:
  assumes "preserves I m" and "preserves I n"
  shows "preserves I (if b then m else n)"
  using assms by simp

lemma preserves_case_option:
  assumes "preserves I a" and "\<And>c. preserves I (b c)"
  shows "preserves I (case x of None \<Rightarrow> a | Some c \<Rightarrow> b c)"
  using assms by (cases x) simp_all

lemma preserves_try:
  assumes "preserves I m" and "\<And>x. preserves I (h x)"
  shows "preserves I (try_except m h)"
  using assms
  by (auto simp: preserves_def try_except_def split: prod.splits sum.splits)

lemma delivered_foldl_append:
  "foldl (delivered p) acc (xs @ [a]) = delivered p (foldl (delivered p) acc xs) a"
  by simp

lemma stored_matches_emit:
  assumes "\<And>p acc. delivered p acc a = acc"
  shows "preserves stored_matches (emit a)"
  using assms by (simp add: preserves_def stored_matches_def last_delivered_def emit_def)

lemma stored_matches_call:
  assumes "\<And>p acc. delivered p acc a = acc"
  shows "preserves stored_matches (call e a)"
  using assms
  by (cases "raises e a")
     (simp_all add: call_def stored_matches_emit preserves_bind preserves_raise)

lemma stored_matches_lookup: "preserves stored_matches (lookup e d)"
  by (cases "getter e d")
     (simp_all add: lookup_def stored_matches_emit preserves_bind preserves_raise preserves_return)

lemma stored_matches_get_cluster: "preserves stored_matches (pod_get_cluster e pod)"
  by (cases "get_cluster e")
     (simp_all add: pod_get_cluster_def stored_matches_emit preserves_bind preserves_raise
       preserves_return)

lemma stored_matches_probe: "preserves stored_matches (probe_status e pod)"
  by (cases "probe_status_if_needed e")
     (simp_all add: probe_status_def stored_matches_emit preserves_bind preserves_raise
       preserves_return)

lemma stored_matches_ephemeral_get: "preserves stored_matches (ephemeral_get pod)"
  by (simp add: preserves_def ephemeral_get_def)

lemma stored_matches_set_version: "preserves stored_matches (set_operator_version v)"
  by (simp add: preserves_def stored_matches_def last_delivered_def set_operator_version_def)

lemma stored_matches_set_status: "preserves stored_matches (set_status st)"
  by (simp add: preserves_def stored_matches_def last_delivered_def set_status_def)

lemma stored_matches_mutex:
  assumes "preserves stored_matches body"
  shows "preserves stored_matches (with_ClusterMutex body)"
proof -
  have a: "stored_matches (s\<lparr>trace := trace s @ [Acquire]\<rparr>) = stored_matches s" for s
    by (simp add: stored_matches_def last_delivered_def)
  have r: "stored_matches (s\<lparr>trace := trace s @ [Release]\<rparr>) = stored_matches s" for s
    by (simp add: stored_matches_def last_delivered_def)
  show ?thesis
    unfolding preserves_def
  proof (intro allI impI)
    fix s assume s: "stored_matches s"
    obtain x s' where b: "body (s\<lparr>trace := trace s @ [Acquire]\<rparr>) = (x, s')"
      by (cases "body (s\<lparr>trace := trace s @ [Acquire]\<rparr>)") auto
    from assms s a [of s] have "stored_matches (snd (body (s\<lparr>trace := trace s @ [Acquire]\<rparr>)))"
      by (simp add: preserves_def)
    with b have "stored_matches s'" by simp
    then show "stored_matches (snd (with_ClusterMutex body s))"
      by (simp add: with_ClusterMutex_def b r)
  qed
qed

text \<open>The hook and the store that follows it, taken together.\<close>

lemma stored_matches_created:
  "preserves stored_matches (block [call e (OnPodCreated pod), ephemeral_set pod (mysql_restarts pod)])"
  by (cases "raises e (OnPodCreated pod)")
     (auto simp: preserves_def stored_matches_def last_delivered_def ephemeral_set_def op_defs)

lemma stored_matches_restarted:
  "preserves stored_matches (block [call e (OnPodRestarted pod), ephemeral_set pod (mysql_restarts pod)])"
  by (cases "raises e (OnPodRestarted pod)")
     (auto simp: preserves_def stored_matches_def last_delivered_def ephemeral_set_def op_defs)

lemmas preserves_rules =
  stored_matches_created stored_matches_restarted
  preserves_return preserves_raise preserves_bind preserves_block_Nil preserves_block_Cons
  preserves_when preserves_if preserves_case_option preserves_try
  stored_matches_emit stored_matches_call stored_matches_lookup stored_matches_get_cluster
  stored_matches_probe stored_matches_ephemeral_get stored_matches_set_version
  stored_matches_set_status stored_matches_mutex

lemma stored_matches_pod_create: "preserves stored_matches (on_pod_create e pod)"
  unfolding on_pod_create_def by (intro preserves_rules) simp_all

lemma stored_matches_pod_attempt: "preserves stored_matches (pod_event_attempt e pod)"
  unfolding pod_event_attempt_def Let_def by (intro preserves_rules) simp_all

lemma stored_matches_pod_delete: "preserves stored_matches (on_pod_delete e pod)"
  unfolding on_pod_delete_def by (intro preserves_rules) simp_all

lemma stored_matches_retry_sleep: "stored_matches (retry_sleep d t) = stored_matches t"
  by (simp add: stored_matches_def last_delivered_def retry_sleep_def split: option.splits)

lemma preserves_ignore_404:
  assumes "preserves I f"
  shows "preserves I (ignore_404 f)"
  unfolding ignore_404_def
proof (rule preserves_try [OF assms])
  fix x show "preserves I (case x of ApiException st \<Rightarrow> if st = 404 then op_return False else op_raise x
                                   | _ \<Rightarrow> op_raise x)"
    by (cases x) (simp_all add: preserves_return preserves_raise)
qed

lemmas handler_rules = preserves_ignore_404 preserves_rules

lemma stored_matches_create: "preserves stored_matches (on_innodbcluster_create e c)"
  unfolding on_innodbcluster_create_def create_dependents_def prepare_and_create_def
  by (intro handler_rules) simp_all

lemma stored_matches_fields:
  "preserves stored_matches (on_innodbcluster_field_instances e old new c)"
  "preserves stored_matches (on_innodbcluster_field_version e old new c)"
  "preserves stored_matches (on_innodbcluster_field_image e old new c)"
  "preserves stored_matches (on_innodbcluster_field_image_repository e old new c)"
  "preserves stored_matches (on_innodbcluster_field_image_pull_policy e old new c)"
  "preserves stored_matches (on_innodbcluster_field_router_instances e old new c)"
  "preserves stored_matches (on_innodbcluster_field_router_version e old new c)"
  "preserves stored_matches (on_innodbcluster_field_backup_schedules e old new c)"
  "preserves stored_matches (on_group_view_change e c)"
  unfolding field_defs on_group_view_change_def
  by (intro handler_rules; simp)+

lemma attempt_issues:
  assumes "phase pod = ''Running''" and "\<not> pod_deleting pod" and "membership_info pod"
    and "containers_ready pod"
    and "ephemeral s (pod_name pod) \<noteq> mysql_restarts pod"
    and "get_cluster e = Inr (Some c)"
  shows "\<exists>new. trace (snd (pod_event_attempt e pod s)) = trace s @ new \<and> notifications new = 1"
  using assms
  by (auto simp: pod_event_defs op_defs Let_def notifications_def
      split: sum.splits option.splits prod.splits)

lemma attempts_extends:
  assumes "trace s = tr @ pre"
  shows "\<exists>new. trace (snd (pod_event_attempts envs pod n j s)) = tr @ pre @ new"
proof -
  let ?I = "\<lambda>t. \<exists>new. trace t = tr @ pre @ new"
  have start: "?I s" using assms by simp
  have att: "?I (snd (pod_event_attempt e pod t))" if "?I t" for e t
    using that attempt_extends [of e pod t] by auto
  have slp: "?I (retry_sleep d t)" if "?I t" for d t
    using that retry_sleep_effect [of d t] by auto
  from attempts_invariant [of ?I s pod envs n j, OF start att slp]
  show ?thesis .
qed

text \<open>A pass that does not end in a retry is the last one; otherwise the loop goes on
  from the state after the sleep.\<close>

lemma attempts_unfold:
  assumes "pod_event_attempt (envs n) pod s = (ra, sa)"
  shows "pod_event_attempts envs pod n j s = (ra, sa)
     \<or> (\<exists>j' d. j = Suc j' \<and> ra = Inl (TemporaryError d)
           \<and> pod_event_attempts envs pod n j s
               = pod_event_attempts envs pod (Suc n) j' (retry_sleep d sa))"
  using assms by (cases j; cases ra rule: is_temporary.cases) auto

lemma stale_attempts:
  assumes "ephemeral s (pod_name pod) = mysql_restarts pod \<or> \<not> containers_ready pod"
  shows "ephemeral (snd (pod_event_attempts envs pod n j s)) = ephemeral s
     \<and> notifications (new_actions s (snd (pod_event_attempts envs pod n j s))) = 0"
proof -
  from quiet_attempts [OF assms, of "trace s" "[]" 0 envs n j] obtain new where
    "trace (snd (pod_event_attempts envs pod n j s)) = trace s @ new" "notifications new = 0"
    "ephemeral (snd (pod_event_attempts envs pod n j s)) = ephemeral s"
    by (auto simp: notifications_def)
  then show ?thesis by (simp add: new_actions_append)
qed

lemma delivery_called:
  assumes "phase pod = ''Running''" and "\<not> pod_deleting pod" and "membership_info pod"
    and "containers_ready pod"
    and "ephemeral s (pod_name pod) \<noteq> mysql_restarts pod"
    and "get_cluster (envs n) = Inr (Some c)"
  shows "1 \<le> notifications (new_actions s (snd (pod_event_attempts envs pod n j s)))"
proof -
  obtain ra sa where a: "pod_event_attempt (envs n) pod s = (ra, sa)"
    by (cases "pod_event_attempt (envs n) pod s") auto
  from attempt_issues [OF assms(1-6)] a obtain n0 where n0:
    "trace sa = trace s @ n0" "notifications n0 = 1"
    by auto
  have "\<exists>new. trace (snd (pod_event_attempts envs pod n j s)) = trace s @ n0 @ new"
    using attempts_unfold [where envs = envs and n = n and j = j, OF a]
  proof (elim disjE conjE exE)
    assume "pod_event_attempts envs pod n j s = (ra, sa)"
    with n0 show ?thesis by simp
  next
    fix j' d
    assume r: "pod_event_attempts envs pod n j s
        = pod_event_attempts envs pod (Suc n) j' (retry_sleep d sa)"
    from retry_sleep_effect [of d sa] obtain n1 where
      n1: "trace (retry_sleep d sa) = trace s @ (n0 @ n1)"
      using n0 by auto
    from attempts_extends [OF n1, of envs pod "Suc n" j'] r show ?thesis by auto
  qed
  then obtain new where "trace (snd (pod_event_attempts envs pod n j s)) = trace s @ (n0 @ new)"
    by auto
  then have "new_actions s (snd (pod_event_attempts envs pod n j s)) = n0 @ new"
    by (rule new_actions_append)
  with n0(2) show ?thesis by (simp add: notifications_append)
qed

lemma delivery_stored:
  assumes "phase pod = ''Running''" and "\<not> pod_deleting pod" and "membership_info pod"
    and "containers_ready pod"
    and "ephemeral s (pod_name pod) \<noteq> mysql_restarts pod"
    and "get_cluster (envs n) = Inr (Some c)"
    and "raises (envs n) (OnPodRestarted pod) = None"
  shows "notifications (new_actions s (snd (pod_event_attempts envs pod n j s))) = 1
     \<and> OnPodRestarted pod \<in> set (new_actions s (snd (pod_event_attempts envs pod n j s)))
     \<and> ephemeral (snd (pod_event_attempts envs pod n j s)) (pod_name pod) = mysql_restarts pod"
proof -
  obtain ra sa where a: "pod_event_attempt (envs n) pod s = (ra, sa)"
    by (cases "pod_event_attempt (envs n) pod s") auto
  from attempt_fires [OF assms] a obtain n0 where n0:
    "trace sa = trace s @ n0" "notifications n0 = 1" "OnPodRestarted pod \<in> set n0"
    "ephemeral sa (pod_name pod) = mysql_restarts pod"
    by auto
  have "\<exists>new. trace (snd (pod_event_attempts envs pod n j s)) = trace s @ new
     \<and> notifications new = 1 \<and> OnPodRestarted pod \<in> set new
     \<and> ephemeral (snd (pod_event_attempts envs pod n j s)) (pod_name pod) = mysql_restarts pod"
    using attempts_unfold [where envs = envs and n = n and j = j, OF a]
  proof (elim disjE conjE exE)
    assume "pod_event_attempts envs pod n j s = (ra, sa)"
    with n0 show ?thesis by auto
  next
    fix j' d
    assume r: "pod_event_attempts envs pod n j s
        = pod_event_attempts envs pod (Suc n) j' (retry_sleep d sa)"
    from retry_sleep_effect [of d sa] obtain n1 where n1:
      "trace (retry_sleep d sa) = trace s @ (n0 @ n1)" "notifications (n0 @ n1) = 1"
      "ephemeral (retry_sleep d sa) (pod_name pod) = mysql_restarts pod"
      using n0 by (auto simp: notifications_append)
    from quiet_attempts [OF disjI1 [OF n1(3)] n1(1) n1(2), of envs "Suc n" j'] obtain new where
      "trace (snd (pod_event_attempts envs pod (Suc n) j' (retry_sleep d sa))) = trace s @ new"
      "notifications new = 1" "\<forall>a\<in>set (n0 @ n1). a \<in> set new"
      "ephemeral (snd (pod_event_attempts envs pod (Suc n) j' (retry_sleep d sa)))
         = ephemeral (retry_sleep d sa)"
      by blast
    with r n0(3) n1(3) show ?thesis by auto
  qed
  then show ?thesis by (auto simp: new_actions_append)
qed

lemma stored_matches_attempts:
  assumes "stored_matches s"
  shows "stored_matches (snd (pod_event_attempts envs pod n j s))"
  using attempts_invariant [of stored_matches s pod envs n j, OF assms]
    stored_matches_pod_attempt stored_matches_retry_sleep
  by (simp add: preserves_def)

lemma not_ready_attempt:
  "pod_event_attempt env_fresh pod_not_ready s =
     (Inr (), s\<lparr>trace := trace s @ [Log ''POD EVENT'', GetCluster ''mycluster-0'', Acquire,
          ProbeStatus ''mycluster-0'', Release]\<rparr>)"
  by (simp add: pod_event_defs op_defs Let_def env_fresh_def pod0_def pod_not_ready_def)

lemma world_created_stored: "ephemeral world_created ''mycluster-0'' = Some 0"
  by (simp add: world_created_def on_pod_create_def pod_event_defs op_defs env_fresh_def
      cluster_new_def pod0_def pod_created_def world0_def)

lemma world_created_matches: "stored_matches world_created"
proof -
  have "stored_matches world0"
    by (simp add: stored_matches_def last_delivered_def world0_def)
  with stored_matches_pod_create [of env_fresh pod_created] show ?thesis
    by (simp add: preserves_def world_created_def)
qed

lemma world_stale_stored: "ephemeral world_stale ''mycluster-0'' = Some 0"
  by (simp add: world_stale_def not_ready_attempt world_created_stored)

lemma orphan_attempt:
  "pod_event_attempt env_orphan pod0 s =
     (Inr (), s\<lparr>trace := trace s @ [Log ''POD EVENT'', GetCluster ''mycluster-0'',
          Log ''Ignoring event for pod belonging to a deleted cluster'']\<rparr>)"
  by (simp add: pod_event_defs op_defs Let_def env_orphan_def env_fresh_def pod0_def)

text \<open>
  The count changed while a container was not ready, the stored value stayed, the
  containers became ready, and the next event found no owning cluster: no notification,
  the stored value still stale. C10 as stated, with a notification at the later event
  once containers are ready, fails.
\<close>

theorem stale_count_orphan_counterexample:
  "stored_matches world_created
   \<and> ephemeral world_created (pod_name pod_not_ready) = Some 0
   \<and> mysql_restarts pod_not_ready = Some 1 \<and> \<not> containers_ready pod_not_ready
   \<and> on_pod_event envs_fresh pod_not_ready 0 world_created = Some (Inr (), world_stale)
   \<and> ephemeral world_stale (pod_name pod_not_ready) = Some 0
   \<and> pod_name pod0 = pod_name pod_not_ready \<and> mysql_restarts pod0 = Some 1
   \<and> phase pod0 = ''Running'' \<and> \<not> pod_deleting pod0 \<and> membership_info pod0
   \<and> containers_ready pod0
   \<and> on_pod_event envs_orphan pod0 0 world_stale
       = Some (Inr (), snd (pod_event_attempt env_orphan pod0 world_stale))
   \<and> notifications (new_actions world_stale (snd (pod_event_attempt env_orphan pod0 world_stale))) = 0
   \<and> ephemeral (snd (pod_event_attempt env_orphan pod0 world_stale)) (pod_name pod0) = Some 0"
proof -
  have a1: "pod_event_attempt (envs_fresh 0) pod_not_ready world_created = (Inr (), world_stale)"
    by (simp add: envs_fresh_def world_stale_def not_ready_attempt)
  have r1: "on_pod_event envs_fresh pod_not_ready 0 world_created = Some (Inr (), world_stale)"
    by (rule on_pod_event_done [of envs_fresh 0 pod_not_ready world_created, OF a1]) simp
  have a2: "pod_event_attempt (envs_orphan 0) pod0 world_stale
      = (Inr (), snd (pod_event_attempt env_orphan pod0 world_stale))"
    by (simp add: envs_orphan_def orphan_attempt)
  have r2: "on_pod_event envs_orphan pod0 0 world_stale
      = Some (Inr (), snd (pod_event_attempt env_orphan pod0 world_stale))"
    by (rule on_pod_event_done [of envs_orphan 0 pod0 world_stale, OF a2]) simp
  have n2: "notifications (new_actions world_stale (snd (pod_event_attempt env_orphan pod0 world_stale))) = 0"
    by (simp add: orphan_attempt new_actions_def notifications_def)
  have e2: "ephemeral (snd (pod_event_attempt env_orphan pod0 world_stale)) ''mycluster-0'' = Some 0"
    by (simp add: orphan_attempt world_stale_stored)
  have p: "pod_name pod_not_ready = ''mycluster-0''" "pod_name pod0 = ''mycluster-0''"
    "mysql_restarts pod_not_ready = Some 1" "\<not> containers_ready pod_not_ready"
    "mysql_restarts pod0 = Some 1" "phase pod0 = ''Running''" "\<not> pod_deleting pod0"
    "membership_info pod0" "containers_ready pod0"
    by (simp_all add: pod_not_ready_def pod0_def)
  show ?thesis
    using world_created_matches world_created_stored world_stale_stored r1 r2 n2 e2
    by (simp add: p)
qed

text \<open>
  C10 (amended). The pod-event handler stores a restart count only when the stored count
  differs from the pod's and all containers are ready. For a pod with a container that is
  not ready the handler, after any number of passes through its loop, has stored nothing
  and has called the pod-restarted hook not at all, so the difference stays. The
  notification is then made at a later event for the pod once it is running, not being
  deleted, has membership info and all containers ready and its owning cluster resolves:
  the first pass of that event calls the hook, and when the hook returns it is the only
  call and the pod's count is stored. The stored count of every pod equals the count at
  the last pod-created or pod-restarted hook that returned for it: every handler keeps
  that, the pod-event handler after any number of passes.
\<close>

theorem stored_count_invariant:
  assumes "stored_matches s"
  shows "stored_matches (snd (on_pod_create e pod s))
     \<and> (\<forall>j. stored_matches (snd (pod_event_attempts envs pod n j s)))
     \<and> (\<forall>r s'. on_pod_event envs pod n s = Some (r, s') \<longrightarrow> stored_matches s')
     \<and> stored_matches (snd (on_pod_delete e pod s))
     \<and> stored_matches (snd (on_innodbcluster_create e c s))
     \<and> stored_matches (snd (on_innodbcluster_field_instances e old new c s))
     \<and> stored_matches (snd (on_innodbcluster_field_version e old new c s))
     \<and> stored_matches (snd (on_innodbcluster_field_image e old new c s))
     \<and> stored_matches (snd (on_innodbcluster_field_image_repository e old new c s))
     \<and> stored_matches (snd (on_innodbcluster_field_image_pull_policy e old new c s))
     \<and> stored_matches (snd (on_innodbcluster_field_router_instances e old new c s))
     \<and> stored_matches (snd (on_innodbcluster_field_router_version e old new c s))
     \<and> stored_matches (snd (on_innodbcluster_field_backup_schedules e old new c s))
     \<and> stored_matches (snd (on_group_view_change e c s))
     \<and> (\<forall>j. ephemeral (snd (pod_event_attempts envs pod n j s)) \<noteq> ephemeral s \<longrightarrow>
           containers_ready pod \<and> ephemeral s (pod_name pod) \<noteq> mysql_restarts pod)
     \<and> (\<not> containers_ready pod \<longrightarrow>
           (\<forall>j. ephemeral (snd (pod_event_attempts envs pod n j s)) = ephemeral s
                \<and> notifications (new_actions s (snd (pod_event_attempts envs pod n j s))) = 0))
     \<and> (phase pod = ''Running'' \<and> \<not> pod_deleting pod \<and> membership_info pod
           \<and> containers_ready pod \<and> ephemeral s (pod_name pod) \<noteq> mysql_restarts pod
           \<and> (\<exists>c'. get_cluster (envs n) = Inr (Some c')) \<longrightarrow>
           (\<forall>j. 1 \<le> notifications (new_actions s (snd (pod_event_attempts envs pod n j s))))
           \<and> (raises (envs n) (OnPodRestarted pod) = None \<longrightarrow>
                (\<forall>j. notifications (new_actions s (snd (pod_event_attempts envs pod n j s))) = 1
                     \<and> OnPodRestarted pod
                          \<in> set (new_actions s (snd (pod_event_attempts envs pod n j s)))
                     \<and> ephemeral (snd (pod_event_attempts envs pod n j s)) (pod_name pod)
                          = mysql_restarts pod)))"
proof -
  have ev: "\<forall>r s'. on_pod_event envs pod n s = Some (r, s') \<longrightarrow> stored_matches s'"
  proof (intro allI impI)
    fix r s' assume run: "on_pod_event envs pod n s = Some (r, s')"
    show "stored_matches s'"
      using on_pod_event_invariant [of envs pod n s r s' stored_matches, OF run assms]
        stored_matches_pod_attempt stored_matches_retry_sleep
      by (simp add: preserves_def)
  qed
  have tot: "\<forall>j. stored_matches (snd (pod_event_attempts envs pod n j s))"
    using stored_matches_attempts [OF assms] by blast
  have only: "\<forall>j. ephemeral (snd (pod_event_attempts envs pod n j s)) \<noteq> ephemeral s \<longrightarrow>
      containers_ready pod \<and> ephemeral s (pod_name pod) \<noteq> mysql_restarts pod"
    using stale_attempts [of s pod envs n] by blast
  have stale: "\<not> containers_ready pod \<longrightarrow>
      (\<forall>j. ephemeral (snd (pod_event_attempts envs pod n j s)) = ephemeral s
           \<and> notifications (new_actions s (snd (pod_event_attempts envs pod n j s))) = 0)"
    using stale_attempts [of s pod envs n] by blast
  have later: "phase pod = ''Running'' \<and> \<not> pod_deleting pod \<and> membership_info pod
      \<and> containers_ready pod \<and> ephemeral s (pod_name pod) \<noteq> mysql_restarts pod
      \<and> (\<exists>c'. get_cluster (envs n) = Inr (Some c')) \<longrightarrow>
      (\<forall>j. 1 \<le> notifications (new_actions s (snd (pod_event_attempts envs pod n j s))))
      \<and> (raises (envs n) (OnPodRestarted pod) = None \<longrightarrow>
           (\<forall>j. notifications (new_actions s (snd (pod_event_attempts envs pod n j s))) = 1
                \<and> OnPodRestarted pod
                     \<in> set (new_actions s (snd (pod_event_attempts envs pod n j s)))
                \<and> ephemeral (snd (pod_event_attempts envs pod n j s)) (pod_name pod)
                     = mysql_restarts pod))"
    using delivery_called [where envs = envs and n = n and pod = pod and s = s]
      delivery_stored [where envs = envs and n = n and pod = pod and s = s]
    by blast
  have hs: "stored_matches (snd (on_pod_create e pod s))"
    "stored_matches (snd (on_pod_delete e pod s))"
    "stored_matches (snd (on_innodbcluster_create e c s))"
    "stored_matches (snd (on_innodbcluster_field_instances e old new c s))"
    "stored_matches (snd (on_innodbcluster_field_version e old new c s))"
    "stored_matches (snd (on_innodbcluster_field_image e old new c s))"
    "stored_matches (snd (on_innodbcluster_field_image_repository e old new c s))"
    "stored_matches (snd (on_innodbcluster_field_image_pull_policy e old new c s))"
    "stored_matches (snd (on_innodbcluster_field_router_instances e old new c s))"
    "stored_matches (snd (on_innodbcluster_field_router_version e old new c s))"
    "stored_matches (snd (on_innodbcluster_field_backup_schedules e old new c s))"
    "stored_matches (snd (on_group_view_change e c s))"
    using assms stored_matches_pod_create stored_matches_pod_delete stored_matches_create
      stored_matches_fields
    by (simp_all add: preserves_def)
  from hs tot ev only stale later show ?thesis by blast
qed

theorem stored_count_invariant_witness:
  "stored_matches world0
   \<and> stored_matches (snd (on_pod_create env_fresh pod_created world0))
   \<and> stored_matches world_created
   \<and> \<not> containers_ready pod_not_ready \<and> mysql_restarts pod_not_ready = Some 1
   \<and> ephemeral world_created (pod_name pod_not_ready) = Some 0
   \<and> pod_event_attempts envs_fresh pod_not_ready 0 0 world_created = (Inr (), world_stale)
   \<and> ephemeral world_stale = ephemeral world_created
   \<and> notifications (new_actions world_created world_stale) = 0
   \<and> stored_matches world_stale
   \<and> phase pod0 = ''Running'' \<and> \<not> pod_deleting pod0 \<and> membership_info pod0
   \<and> containers_ready pod0 \<and> pod_name pod0 = pod_name pod_not_ready
   \<and> ephemeral world_stale (pod_name pod0) \<noteq> mysql_restarts pod0
   \<and> get_cluster (envs_fresh 0) = Inr (Some cluster_new)
   \<and> raises (envs_fresh 0) (OnPodRestarted pod0) = None
   \<and> notifications (new_actions world_stale
        (snd (pod_event_attempts envs_fresh pod0 0 0 world_stale))) = 1
   \<and> OnPodRestarted pod0 \<in> set (new_actions world_stale
        (snd (pod_event_attempts envs_fresh pod0 0 0 world_stale)))
   \<and> ephemeral (snd (pod_event_attempts envs_fresh pod0 0 0 world_stale)) (pod_name pod0)
        = Some 1
   \<and> stored_matches (snd (pod_event_attempts envs_fresh pod0 0 0 world_stale))"
proof -
  have h0: "stored_matches world0"
    by (simp add: stored_matches_def last_delivered_def world0_def)
  from stored_count_invariant [OF h0, of env_fresh pod_created]
  have c0: "stored_matches (snd (on_pod_create env_fresh pod_created world0))" by blast
  then have c: "stored_matches world_created" by (simp add: world_created_def)
  have p: "\<not> containers_ready pod_not_ready" "mysql_restarts pod_not_ready = Some 1"
    "pod_name pod_not_ready = ''mycluster-0''" "pod_name pod0 = ''mycluster-0''"
    "phase pod0 = ''Running''" "\<not> pod_deleting pod0" "membership_info pod0"
    "containers_ready pod0" "mysql_restarts pod0 = Some 1"
    by (simp_all add: pod_not_ready_def pod0_def)
  have a1: "pod_event_attempts envs_fresh pod_not_ready 0 0 world_created = (Inr (), world_stale)"
    by (simp add: envs_fresh_def world_stale_def not_ready_attempt)
  note t1 = stored_count_invariant [OF c, of env_fresh pod_not_ready envs_fresh 0]
  from t1 p(1) have "ephemeral (snd (pod_event_attempts envs_fresh pod_not_ready 0 0 world_created))
        = ephemeral world_created
      \<and> notifications (new_actions world_created
          (snd (pod_event_attempts envs_fresh pod_not_ready 0 0 world_created))) = 0
      \<and> stored_matches (snd (pod_event_attempts envs_fresh pod_not_ready 0 0 world_created))"
    by blast
  then have st: "ephemeral world_stale = ephemeral world_created"
    "notifications (new_actions world_created world_stale) = 0"
    "stored_matches world_stale"
    unfolding a1 by simp_all
  have ne: "ephemeral world_stale (pod_name pod0) \<noteq> mysql_restarts pod0"
    by (simp add: p world_stale_stored)
  have g: "get_cluster (envs_fresh 0) = Inr (Some cluster_new)"
    "raises (envs_fresh 0) (OnPodRestarted pod0) = None"
    by (simp_all add: envs_fresh_def env_fresh_def)
  note t2 = stored_count_invariant [OF st(3), of env_fresh pod0 envs_fresh 0]
  from t2 p(5-8) ne g
  have d: "notifications (new_actions world_stale
        (snd (pod_event_attempts envs_fresh pod0 0 0 world_stale))) = 1
     \<and> OnPodRestarted pod0 \<in> set (new_actions world_stale
        (snd (pod_event_attempts envs_fresh pod0 0 0 world_stale)))
     \<and> ephemeral (snd (pod_event_attempts envs_fresh pod0 0 0 world_stale)) (pod_name pod0)
        = mysql_restarts pod0
     \<and> stored_matches (snd (pod_event_attempts envs_fresh pod0 0 0 world_stale))"
    by blast
  have e0: "ephemeral world_created (pod_name pod_not_ready) = Some 0"
    by (simp add: p world_created_stored)
  from h0 c0 c p a1 st ne g d e0 show ?thesis by (simp add: p)
qed

end
